theory Spec2Isabelle
  imports Main "HOL-Library.Word"
begin

unbundle bit_operations_syntax

section \<open>Machine integers and constants\<close>

type_synonym u16 = "16 word"
type_synonym u32 = "32 word"
type_synonym u64 = "64 word"

text \<open>
  \<open>MAXSLOTS\<close>, \<open>MAXTRANSFORM\<close> and \<open>IBIT\<close> are declared in \<^verbatim>\<open>datadef.h\<close>, which is
  not among the sources. Their values are fixed by the code that is:
  \<^verbatim>\<open>assert(MAXSLOTS == 9)\<close> in \<^verbatim>\<open>initialiseVector\<close>, the 9! transforms, and the
  inverter bit as the high bit of a 32-bit reference.
\<close>

definition MAXSLOTS :: nat where
  "MAXSLOTS = 9"

definition MAXTRANSFORM :: nat where
  "MAXTRANSFORM = 362880"

definition IBIT :: u32 where
  "IBIT = 0x80000000"

section \<open>The section planner (\<^verbatim>\<open>dbtool_t::sizeDatabaseSections\<close>)\<close>

text \<open>
  The \<^verbatim>\<open>ALLOCMASK_*\<close> constants of \<^verbatim>\<open>database.h\<close> are distinct single-bit masks, one
  per section. A mask word (\<^verbatim>\<open>inheritSections\<close>, \<^verbatim>\<open>rebuildSections\<close>) is modelled as the
  set of the sections whose bit is set: \<^verbatim>\<open>m |= X\<close> is \<open>insert X m\<close>, \<^verbatim>\<open>m &= ~r\<close> is
  \<open>m - r\<close> and \<^verbatim>\<open>m & X\<close> is \<open>X \<in> m\<close>.
\<close>

datatype section_t =
    ALLOCMASK_TRANSFORM
  | ALLOCMASK_SIGNATURE | ALLOCMASK_SIGNATUREINDEX
  | ALLOCMASK_HINT | ALLOCMASK_HINTINDEX
  | ALLOCMASK_IMPRINT | ALLOCMASK_IMPRINTINDEX
  | ALLOCMASK_MEMBER | ALLOCMASK_MEMBERINDEX

text \<open>The occupancy, capacity and index size of each section of a \<^verbatim>\<open>database_t\<close>.\<close>

record database_t =
  numSignature :: u32
  maxSignature :: u32
  signatureIndexSize :: u32
  numHint :: u32
  maxHint :: u32
  hintIndexSize :: u32
  interleave :: u32
  interleaveStep :: u32
  numImprint :: u32
  maxImprint :: u32
  imprintIndexSize :: u32
  numMember :: u32
  maxMember :: u32
  memberIndexSize :: u32

text \<open>The fields of \<^verbatim>\<open>dbtool_t\<close> the planner reads and writes.\<close>

record dbtool_t =
  opt_imprintIndexSize :: u32
  opt_hintIndexSize :: u32
  opt_interleave :: u32
  opt_maxHint :: u32
  opt_maxImprint :: u32
  opt_maxMember :: u32
  opt_maxSignature :: u32
  opt_memberIndexSize :: u32
  opt_signatureIndexSize :: u32
  copyOnWrite :: u32
  readOnlyMode :: u32
  rebuildSections :: "section_t set"
  inheritSections :: "section_t set"

record metricsGenerator_t =
  mg_numSignature :: u32
  mg_numHint :: u32
  mg_numMember :: u32

record metricsInterleave_t =
  numStored :: u32
  mi_interleaveStep :: u32

text \<open>
  What the planner calls outside \<^verbatim>\<open>dbtool.h\<close>: the preset tables of \<^verbatim>\<open>metrics.h\<close>
  and two helpers of \<^verbatim>\<open>context_t\<close>, none of them among the sources. They are parameters
  of the model. \<open>getMetricsGenerator\<close> is the result of the lookup for
  \<^verbatim>\<open>(MAXSLOTS, pure, numNodes)\<close>, the same at every call of one run;
  \<open>getMetricsImprint\<close> and \<open>getMetricsInterleave\<close> are the lookups as functions of the
  interleave; \<open>indexSizeOf max\<close> stands for \<^verbatim>\<open>ctx.nextPrime(max * opt_ratio)\<close>, a
  floating-point product.
\<close>

record presets_t =
  getMetricsGenerator :: "metricsGenerator_t option"
  getMetricsImprint :: "u32 \<Rightarrow> u32 option"
  getMetricsInterleave :: "u32 \<Rightarrow> metricsInterleave_t option"
  raisePercent :: "u32 \<Rightarrow> u32 \<Rightarrow> u32"
  indexSizeOf :: "u32 \<Rightarrow> u32"

text \<open>Every \<^verbatim>\<open>ctx.fatal(...)\<close> of the planner ends the program; each is an error value.\<close>

datatype fatal_t =
    NoPresetMaxSignature
  | NoPresetMaxHint
  | NoPresetInterleave
  | NoPresetMaxImprint
  | NoPresetMaxMember
  | MaxSignatureTooSmall
  | MaxHintTooSmall
  | MaxMemberTooSmall

definition METRICS_DEFAULT_INTERLEAVE :: u32 where
  "METRICS_DEFAULT_INTERLEAVE = 504"

text \<open>The planner's state: the output database and the tool's two section masks.\<close>

type_synonym plan_t = "database_t \<times> dbtool_t"

text \<open>Signature section: data (lines 167-196), then index (lines 198-228).\<close>

definition sizeSignatureData :: "presets_t \<Rightarrow> database_t \<Rightarrow> plan_t \<Rightarrow> fatal_t + plan_t" where
  "sizeSignatureData ps db p =
    (let store = fst p; app = snd p in
     case (if opt_maxSignature app \<noteq> 0 then Inr (opt_maxSignature app)
           else if ALLOCMASK_SIGNATURE \<in> inheritSections app then Inr (numSignature db)
           else if readOnlyMode app = 0 then
             (case getMetricsGenerator ps of
                None \<Rightarrow> Inl NoPresetMaxSignature
              | Some pMetrics \<Rightarrow> Inr (raisePercent ps (mg_numSignature pMetrics) 5))
           else if numSignature db \<noteq> 0 then Inr (numSignature db)
           else Inr 1) of
       Inl e \<Rightarrow> Inl e
     | Inr m \<Rightarrow>
         Inr (store\<lparr>maxSignature := m\<rparr>,
              if m > numSignature db
              then app\<lparr>inheritSections := inheritSections app - {ALLOCMASK_SIGNATURE}\<rparr>
              else if copyOnWrite app \<noteq> 0
              then app\<lparr>inheritSections := insert ALLOCMASK_SIGNATURE (inheritSections app)\<rparr>
              else app))"

definition sizeSignatureIndex :: "presets_t \<Rightarrow> database_t \<Rightarrow> plan_t \<Rightarrow> plan_t" where
  "sizeSignatureIndex ps db p =
    (let store = fst p; app = snd p in
     if maxSignature store = 0 then (store\<lparr>signatureIndexSize := 0\<rparr>, app)
     else
       let n = (if opt_signatureIndexSize app \<noteq> 0 then opt_signatureIndexSize app
                else if ALLOCMASK_SIGNATUREINDEX \<in> inheritSections app then signatureIndexSize db
                else if readOnlyMode app = 0 then indexSizeOf ps (maxSignature store)
                else if signatureIndexSize db \<noteq> 0 then signatureIndexSize db
                else 1)
       in (store\<lparr>signatureIndexSize := n\<rparr>,
           if n \<noteq> signatureIndexSize db
           then app\<lparr>rebuildSections := insert ALLOCMASK_SIGNATUREINDEX (rebuildSections app),
                    inheritSections := inheritSections app
                                       - insert ALLOCMASK_SIGNATUREINDEX (rebuildSections app)\<rparr>
           else if copyOnWrite app \<noteq> 0
           then app\<lparr>inheritSections := insert ALLOCMASK_SIGNATUREINDEX (inheritSections app)\<rparr>
           else app))"

text \<open>Hint section: data (lines 234-263), then index (lines 265-295).\<close>

definition sizeHintData :: "presets_t \<Rightarrow> database_t \<Rightarrow> plan_t \<Rightarrow> fatal_t + plan_t" where
  "sizeHintData ps db p =
    (let store = fst p; app = snd p in
     case (if opt_maxHint app \<noteq> 0 then Inr (opt_maxHint app)
           else if ALLOCMASK_HINT \<in> inheritSections app then Inr (numHint db)
           else if readOnlyMode app = 0 then
             (case getMetricsGenerator ps of
                None \<Rightarrow> Inl NoPresetMaxHint
              | Some pMetrics \<Rightarrow> Inr (raisePercent ps (mg_numHint pMetrics) 5))
           else if numHint db \<noteq> 0 then Inr (numHint db)
           else Inr 1) of
       Inl e \<Rightarrow> Inl e
     | Inr m \<Rightarrow>
         Inr (store\<lparr>maxHint := m\<rparr>,
              if m > numHint db
              then app\<lparr>inheritSections := inheritSections app - {ALLOCMASK_HINT}\<rparr>
              else if copyOnWrite app \<noteq> 0
              then app\<lparr>inheritSections := insert ALLOCMASK_HINT (inheritSections app)\<rparr>
              else app))"

definition sizeHintIndex :: "presets_t \<Rightarrow> database_t \<Rightarrow> plan_t \<Rightarrow> plan_t" where
  "sizeHintIndex ps db p =
    (let store = fst p; app = snd p in
     if maxHint store = 0 then (store\<lparr>hintIndexSize := 0\<rparr>, app)
     else
       let n = (if opt_hintIndexSize app \<noteq> 0 then opt_hintIndexSize app
                else if ALLOCMASK_HINTINDEX \<in> inheritSections app then hintIndexSize db
                else if readOnlyMode app = 0 then indexSizeOf ps (maxHint store)
                else if hintIndexSize db \<noteq> 0 then hintIndexSize db
                else 1)
       in (store\<lparr>hintIndexSize := n\<rparr>,
           if n \<noteq> hintIndexSize db
           then app\<lparr>rebuildSections := insert ALLOCMASK_HINTINDEX (rebuildSections app),
                    inheritSections := inheritSections app
                                       - insert ALLOCMASK_HINTINDEX (rebuildSections app)\<rparr>
           else if copyOnWrite app \<noteq> 0
           then app\<lparr>inheritSections := insert ALLOCMASK_HINTINDEX (inheritSections app)\<rparr>
           else app))"

text \<open>Interleave (lines 301-325): a setting, not a section.\<close>

definition sizeInterleave :: "presets_t \<Rightarrow> database_t \<Rightarrow> plan_t \<Rightarrow> fatal_t + plan_t" where
  "sizeInterleave ps db p =
    (let store = fst p; app = snd p;
         i = (if opt_interleave app \<noteq> 0 then opt_interleave app
              else if interleave db \<noteq> 0 then interleave db
              else METRICS_DEFAULT_INTERLEAVE)
     in case (if i \<noteq> 0 then
                (case getMetricsInterleave ps i of
                   None \<Rightarrow> Inl NoPresetInterleave
                 | Some pMetrics \<Rightarrow>
                     Inr (store\<lparr>interleave := numStored pMetrics,
                                interleaveStep := mi_interleaveStep pMetrics\<rparr>))
              else Inr (store\<lparr>interleave := i\<rparr>)) of
          Inl e \<Rightarrow> Inl e
        | Inr store' \<Rightarrow>
            Inr (store',
                 if interleave store' \<noteq> interleave db
                 then app\<lparr>rebuildSections := insert ALLOCMASK_IMPRINT (rebuildSections app),
                          inheritSections := inheritSections app
                                             - insert ALLOCMASK_IMPRINT (rebuildSections app)\<rparr>
                 else app))"

text \<open>Imprint section: data (lines 327-374), then index (lines 376-406).\<close>

definition sizeImprintData :: "presets_t \<Rightarrow> database_t \<Rightarrow> plan_t \<Rightarrow> fatal_t + plan_t" where
  "sizeImprintData ps db p =
    (let store = fst p; app = snd p in
     if maxSignature store = 0 then Inr (store\<lparr>interleave := 0, maxImprint := 0\<rparr>, app)
     else
       case (if opt_maxImprint app \<noteq> 0 then Inr (store\<lparr>maxImprint := opt_maxImprint app\<rparr>)
             else if ALLOCMASK_IMPRINT \<in> inheritSections app
             then Inr (store\<lparr>maxImprint := numImprint db\<rparr>)
             else if readOnlyMode app = 0 then
               (case getMetricsImprint ps (interleave store) of
                  None \<Rightarrow> Inl NoPresetMaxImprint
                | Some n \<Rightarrow> Inr (store\<lparr>maxImprint := raisePercent ps n 5\<rparr>))
             else if numImprint db \<noteq> 0 then Inr (store\<lparr>maxImprint := numImprint db\<rparr>)
             else Inr (store\<lparr>interleave := 1, interleaveStep := of_nat MAXTRANSFORM,
                             maxImprint := 1\<rparr>)) of
         Inl e \<Rightarrow> Inl e
       | Inr store' \<Rightarrow>
           let app1 = (if maxImprint store' > numImprint db
                       then app\<lparr>inheritSections := inheritSections app - {ALLOCMASK_IMPRINT}\<rparr>
                       else if copyOnWrite app \<noteq> 0
                       then app\<lparr>inheritSections := insert ALLOCMASK_IMPRINT (inheritSections app)\<rparr>
                       else app);
               app2 = (if numImprint db = 0 \<or> interleave store' \<noteq> interleave db
                       then app1\<lparr>rebuildSections := insert ALLOCMASK_IMPRINT (rebuildSections app1),
                                 inheritSections := inheritSections app1
                                                    - insert ALLOCMASK_IMPRINT (rebuildSections app1)\<rparr>
                       else if copyOnWrite app1 \<noteq> 0
                       then app1\<lparr>inheritSections := insert ALLOCMASK_IMPRINT (inheritSections app1)\<rparr>
                       else app1)
           in Inr (store', app2))"

definition sizeImprintIndex :: "presets_t \<Rightarrow> database_t \<Rightarrow> plan_t \<Rightarrow> plan_t" where
  "sizeImprintIndex ps db p =
    (let store = fst p; app = snd p in
     if maxImprint store = 0 then (store\<lparr>imprintIndexSize := 0\<rparr>, app)
     else
       let n = (if opt_imprintIndexSize app \<noteq> 0 then opt_imprintIndexSize app
                else if ALLOCMASK_IMPRINTINDEX \<in> inheritSections app then imprintIndexSize db
                else if readOnlyMode app = 0 then indexSizeOf ps (maxImprint store)
                else if imprintIndexSize db \<noteq> 0 then imprintIndexSize db
                else 1)
       in (store\<lparr>imprintIndexSize := n\<rparr>,
           if n \<noteq> imprintIndexSize db
           then app\<lparr>rebuildSections := insert ALLOCMASK_IMPRINTINDEX (rebuildSections app),
                    inheritSections := inheritSections app
                                       - insert ALLOCMASK_IMPRINTINDEX (rebuildSections app)\<rparr>
           else if copyOnWrite app \<noteq> 0
           then app\<lparr>inheritSections := insert ALLOCMASK_IMPRINTINDEX (inheritSections app)\<rparr>
           else app))"

text \<open>Member section: data (lines 412-441), then index (lines 443-473).\<close>

definition sizeMemberData :: "presets_t \<Rightarrow> database_t \<Rightarrow> plan_t \<Rightarrow> fatal_t + plan_t" where
  "sizeMemberData ps db p =
    (let store = fst p; app = snd p in
     case (if opt_maxMember app \<noteq> 0 then Inr (opt_maxMember app)
           else if ALLOCMASK_MEMBER \<in> inheritSections app then Inr (numMember db)
           else if readOnlyMode app = 0 then
             (case getMetricsGenerator ps of
                None \<Rightarrow> Inl NoPresetMaxMember
              | Some pMetrics \<Rightarrow> Inr (raisePercent ps (mg_numMember pMetrics) 5))
           else if numMember db \<noteq> 0 then Inr (numMember db)
           else Inr 1) of
       Inl e \<Rightarrow> Inl e
     | Inr m \<Rightarrow>
         Inr (store\<lparr>maxMember := m\<rparr>,
              if m > numMember db
              then app\<lparr>inheritSections := inheritSections app - {ALLOCMASK_MEMBER}\<rparr>
              else if copyOnWrite app \<noteq> 0
              then app\<lparr>inheritSections := insert ALLOCMASK_MEMBER (inheritSections app)\<rparr>
              else app))"

definition sizeMemberIndex :: "presets_t \<Rightarrow> database_t \<Rightarrow> plan_t \<Rightarrow> plan_t" where
  "sizeMemberIndex ps db p =
    (let store = fst p; app = snd p in
     if maxMember store = 0 then (store\<lparr>memberIndexSize := 0\<rparr>, app)
     else
       let n = (if opt_memberIndexSize app \<noteq> 0 then opt_memberIndexSize app
                else if ALLOCMASK_MEMBERINDEX \<in> inheritSections app then memberIndexSize db
                else if readOnlyMode app = 0 then indexSizeOf ps (maxMember store)
                else if memberIndexSize db \<noteq> 0 then memberIndexSize db
                else 1)
       in (store\<lparr>memberIndexSize := n\<rparr>,
           if n \<noteq> memberIndexSize db
           then app\<lparr>rebuildSections := insert ALLOCMASK_MEMBERINDEX (rebuildSections app),
                    inheritSections := inheritSections app
                                       - insert ALLOCMASK_MEMBERINDEX (rebuildSections app)\<rparr>
           else if copyOnWrite app \<noteq> 0
           then app\<lparr>inheritSections := insert ALLOCMASK_MEMBERINDEX (inheritSections app)\<rparr>
           else app))"

text \<open>
  The body of \<^verbatim>\<open>sizeDatabaseSections\<close> up to its closing checks (lines 161-476): every
  section in the source's order, a fatal ending the run at once.
\<close>

definition planSections :: "presets_t \<Rightarrow> dbtool_t \<Rightarrow> database_t \<Rightarrow> database_t \<Rightarrow> fatal_t + plan_t" where
  "planSections ps app store db =
    (case sizeSignatureData ps db
            (store, app\<lparr>inheritSections := inheritSections app - rebuildSections app\<rparr>) of
       Inl e \<Rightarrow> Inl e
     | Inr p1 \<Rightarrow>
    (case sizeHintData ps db (sizeSignatureIndex ps db p1) of
       Inl e \<Rightarrow> Inl e
     | Inr p2 \<Rightarrow>
    (case sizeInterleave ps db (sizeHintIndex ps db p2) of
       Inl e \<Rightarrow> Inl e
     | Inr p3 \<Rightarrow>
    (case sizeImprintData ps db p3 of
       Inl e \<Rightarrow> Inl e
     | Inr p4 \<Rightarrow>
    (case sizeMemberData ps db (sizeImprintIndex ps db p4) of
       Inl e \<Rightarrow> Inl e
     | Inr p5 \<Rightarrow>
         (let p6 = sizeMemberIndex ps db p5; app6 = snd p6
          in Inr (fst p6, app6\<lparr>inheritSections := inheritSections app6 - rebuildSections app6\<rparr>)))))))"

text \<open>
  The closing checks (lines 482-488): "output data must be large enough to fit input
  data". They name the signature, hint and member sections.
\<close>

definition checkFits :: "database_t \<Rightarrow> plan_t \<Rightarrow> fatal_t + plan_t" where
  "checkFits db p =
    (let store = fst p in
     if maxSignature store < numSignature db then Inl MaxSignatureTooSmall
     else if maxHint store < numHint db then Inl MaxHintTooSmall
     else if maxMember store < numMember db then Inl MaxMemberTooSmall
     else Inr p)"

definition sizeDatabaseSections :: "presets_t \<Rightarrow> dbtool_t \<Rightarrow> database_t \<Rightarrow> database_t \<Rightarrow> fatal_t + plan_t" where
  "sizeDatabaseSections ps app store db =
    (case planSections ps app store db of
       Inl e \<Rightarrow> Inl e
     | Inr p \<Rightarrow> checkFits db p)"

text \<open>The constructor of \<^verbatim>\<open>dbtool_t\<close> (lines 95-116).\<close>

definition dbtool_init :: dbtool_t where
  "dbtool_init =
    \<lparr>opt_imprintIndexSize = 0, opt_hintIndexSize = 0, opt_interleave = 0, opt_maxHint = 0,
     opt_maxImprint = 0, opt_maxMember = 0, opt_maxSignature = 0, opt_memberIndexSize = 0,
     opt_signatureIndexSize = 0, copyOnWrite = 0, readOnlyMode = 0, rebuildSections = {},
     inheritSections = {ALLOCMASK_TRANSFORM, ALLOCMASK_SIGNATURE, ALLOCMASK_SIGNATUREINDEX,
                        ALLOCMASK_HINT, ALLOCMASK_HINTINDEX, ALLOCMASK_IMPRINT,
                        ALLOCMASK_IMPRINTINDEX, ALLOCMASK_MEMBER, ALLOCMASK_MEMBERINDEX}\<rparr>"

subsection \<open>The interleave presets\<close>

text \<open>
  Modelled from the spec: the table \<^verbatim>\<open>metricsInterleave[]\<close> of \<^verbatim>\<open>metrics.h\<close> is not among
  the sources. The spec names the valid interleaves 504, 120, 720, 5040, 15120, 40320 and
  60480, calls an interleave a divisor pair \<open>(numStored, interleaveStep)\<close> of 9!, and has
  lookup probe \<open>9!/numStored\<close> transforms. The model holds the seven values the spec
  lists, each with \<open>numStored\<close> the interleave itself and the step \<open>9! div numStored\<close>.
\<close>

definition allowedInterleaves :: "nat list" where
  "allowedInterleaves = [504, 120, 720, 5040, 15120, 40320, 60480]"

definition metricsInterleave :: "u32 \<Rightarrow> metricsInterleave_t option" where
  "metricsInterleave i =
    (if unat i \<in> set allowedInterleaves
     then Some \<lparr>numStored = i, mi_interleaveStep = of_nat (MAXTRANSFORM div unat i)\<rparr>
     else None)"

text \<open>
  Modelled from the spec: the transform ids stored for one signature are
  \<open>0, step, 2 * step, ...\<close> (\<open>numStored\<close> of them, taken modulo 9!), and lookup probes
  the transform ids \<open>0, 1, ..., step - 1\<close>.
\<close>

definition storedTransforms :: "metricsInterleave_t \<Rightarrow> nat list" where
  "storedTransforms m =
    map (\<lambda>k. (k * unat (mi_interleaveStep m)) mod MAXTRANSFORM) [0..<unat (numStored m)]"

definition probedTransforms :: "metricsInterleave_t \<Rightarrow> nat list" where
  "probedTransforms m = [0..<unat (mi_interleaveStep m)]"

text \<open>
  Modelled from the spec: \<^verbatim>\<open>raisePercent(n, p)\<close> is the ceiling of \<open>n (1 + p/100)\<close>, and
  \<^verbatim>\<open>nextPrime(n)\<close> the smallest prime not below \<open>n\<close> (searched here up to \<open>2 n + 2\<close>).
  Both belong to \<^verbatim>\<open>context_t\<close>, which is not among the sources; the index ratio is taken
  as the default 5.0.
\<close>

definition raisePercent_spec :: "u32 \<Rightarrow> u32 \<Rightarrow> u32" where
  "raisePercent_spec n p = of_nat ((unat n * (100 + unat p) + 99) div 100)"

definition isPrime :: "nat \<Rightarrow> bool" where
  "isPrime n = (1 < n \<and> list_all (\<lambda>d. n mod d \<noteq> 0) [2..<n])"

definition nextPrime_spec :: "nat \<Rightarrow> nat" where
  "nextPrime_spec n = (case filter isPrime [n..<2 * n + 3] of [] \<Rightarrow> 0 | q # _ \<Rightarrow> q)"

definition indexSizeOf_spec :: "u32 \<Rightarrow> u32" where
  "indexSizeOf_spec m = of_nat (nextPrime_spec (unat m * 5))"

text \<open>A run with no generator or imprint preset for its node count.\<close>

definition presets_none :: presets_t where
  "presets_none =
    \<lparr>getMetricsGenerator = None, getMetricsImprint = (\<lambda>i. None),
     getMetricsInterleave = metricsInterleave, raisePercent = raisePercent_spec,
     indexSizeOf = indexSizeOf_spec\<rparr>"

text \<open>An input database with 10 signatures, 4 hints, 100 imprints at interleave 504, 3 members.\<close>

definition db_small :: database_t where
  "db_small =
    \<lparr>numSignature = 10, maxSignature = 10, signatureIndexSize = 53,
     numHint = 4, maxHint = 4, hintIndexSize = 23,
     interleave = 504, interleaveStep = 720,
     numImprint = 100, maxImprint = 100, imprintIndexSize = 503,
     numMember = 3, maxMember = 3, memberIndexSize = 17\<rparr>"

text \<open>A freshly created output database: every count zero.\<close>

definition db_empty :: database_t where
  "db_empty =
    \<lparr>numSignature = 0, maxSignature = 0, signatureIndexSize = 0,
     numHint = 0, maxHint = 0, hintIndexSize = 0,
     interleave = 0, interleaveStep = 0,
     numImprint = 0, maxImprint = 0, imprintIndexSize = 0,
     numMember = 0, maxMember = 0, memberIndexSize = 0\<rparr>"

section \<open>The micro-tree (\<^verbatim>\<open>tinytree.h\<close>)\<close>

text \<open>
  A node is the triple \<open>(Q, T, F)\<close>; \<open>T\<close> may carry the inverter bit \<open>IBIT\<close>.
\<close>

record tinyNode_t =
  nodeQ :: u32
  nodeT :: u32
  nodeF :: u32

text \<open>
  The tree. \<open>N\<close> is the node array \<^verbatim>\<open>N[TINYTREE_MAXNODES]\<close>: it has \<^verbatim>\<open>TINYTREE_MAXNODES\<close>
  entries and is read and written by node id, so its entries are the ids below
  \<^verbatim>\<open>TINYTREE_MAXNODES\<close>. The operator nodes are numbered from \<^verbatim>\<open>TINYTREE_NSTART\<close> and the
  checks of the code let \<open>count\<close> run up to \<^verbatim>\<open>TINYTREE_NEND\<close>, which is beyond the array: a
  read or a write of \<open>N\<close> at an id from \<^verbatim>\<open>TINYTREE_MAXNODES\<close> on is outside the array,
  undefined behaviour, and is the fault \<open>Undefined\<close> wherever the model accesses \<open>N\<close>. The
  field \<open>N\<close> is a function of the id of which only the values below \<^verbatim>\<open>TINYTREE_MAXNODES\<close>
  are ever used. An entry the code has not written holds whatever it held before. The
  two bits of \<^verbatim>\<open>flags\<close> the tree code
  tests, \<^verbatim>\<open>MAGICMASK_PARANOID\<close> and \<^verbatim>\<open>MAGICMASK_QNTF\<close> (declared in \<^verbatim>\<open>context.h\<close>, not among
  the sources), are the fields \<open>paranoid\<close> and \<open>qntf\<close>.
\<close>

record tinyTree_t =
  paranoid :: bool
  qntf :: bool
  count :: u32
  N :: "nat \<Rightarrow> tinyNode_t"
  root :: u32

definition TINYTREE_MAXNODES :: nat where
  "TINYTREE_MAXNODES = MAXSLOTS * 2"

definition TINYTREE_KSTART :: nat where
  "TINYTREE_KSTART = 1"

definition TINYTREE_NSTART :: nat where
  "TINYTREE_NSTART = TINYTREE_KSTART + MAXSLOTS"

definition TINYTREE_NEND :: nat where
  "TINYTREE_NEND = TINYTREE_NSTART + TINYTREE_MAXNODES"

definition TINYTREE_MAXSTACK :: nat where
  "TINYTREE_MAXSTACK = (3 + 1) * TINYTREE_MAXNODES"

definition TINYTREE_NAMELEN :: nat where
  "TINYTREE_NAMELEN = 1 + (3 + 1) * TINYTREE_MAXNODES + 1 + 1"

text \<open>
  A call ends abnormally when an \<^verbatim>\<open>assert\<close> fails (the program aborts), when it reads
  or writes outside an array or reads a local it never wrote (undefined behaviour), or
  when \<^verbatim>\<open>ctx.fatal\<close> ends the program.
\<close>

datatype fault_t = AssertionFailed | Undefined | FatalExit

definition clear :: "tinyTree_t \<Rightarrow> tinyTree_t" where
  "clear t = t\<lparr>count := of_nat TINYTREE_NSTART, root := 0\<rparr>"

subsection \<open>\<^verbatim>\<open>basicNode\<close>: append if absent\<close>

text \<open>The twelve sanity checks of \<^verbatim>\<open>basicNode\<close>, made in paranoid mode only.\<close>

definition basicNode_sane :: "tinyTree_t \<Rightarrow> u32 \<Rightarrow> u32 \<Rightarrow> u32 \<Rightarrow> bool" where
  "basicNode_sane t Q T F \<longleftrightarrow>
     NOT Q AND IBIT \<noteq> 0 \<and>
     (T AND IBIT \<noteq> 0 \<or> \<not> qntf t) \<and>
     NOT F AND IBIT \<noteq> 0 \<and>
     Q \<noteq> 0 \<and>
     T \<noteq> 0 \<and>
     (T \<noteq> IBIT \<or> F \<noteq> 0) \<and>
     Q \<noteq> (T AND NOT IBIT) \<and>
     Q \<noteq> F \<and>
     T \<noteq> F \<and>
     ((T AND NOT IBIT) \<noteq> F \<or> Q < F) \<and>
     (F \<noteq> 0 \<or> T AND IBIT \<noteq> 0 \<or> Q < T) \<and>
     (T \<noteq> IBIT \<or> Q < F)"

text \<open>
  The scan \<^verbatim>\<open>for (nid = NSTART; nid < count; nid++)\<close> returns the first node equal to
  \<open>(Q, T, F)\<close>. It reads \<open>N[nid]\<close>: within the array as long as \<open>nid\<close> is below
  \<^verbatim>\<open>TINYTREE_MAXNODES\<close>; a scan that finds nothing there and has \<open>count\<close> beyond goes on to
  read outside the array. Otherwise \<^verbatim>\<open>assert(count < TINYTREE_NEND)\<close> is made and the node is
  stored at \<open>N[count]\<close>, a write outside the array when \<open>count\<close> has reached
  \<^verbatim>\<open>TINYTREE_MAXNODES\<close>; then \<open>count\<close> grows by one.
\<close>

definition basicNode :: "tinyTree_t \<Rightarrow> u32 \<Rightarrow> u32 \<Rightarrow> u32 \<Rightarrow> fault_t + (u32 \<times> tinyTree_t)" where
  "basicNode t Q T F =
    (if paranoid t \<and> \<not> basicNode_sane t Q T F then Inl AssertionFailed
     else
       case find (\<lambda>nid. nodeQ (N t nid) = Q \<and> nodeT (N t nid) = T \<and> nodeF (N t nid) = F)
                 [TINYTREE_NSTART..<min (unat (count t)) TINYTREE_MAXNODES] of
         Some nid \<Rightarrow> Inr (of_nat nid, t)
       | None \<Rightarrow>
           if TINYTREE_MAXNODES < unat (count t) then Inl Undefined
           else if \<not> unat (count t) < TINYTREE_NEND then Inl AssertionFailed
           else if \<not> unat (count t) < TINYTREE_MAXNODES then Inl Undefined
           else Inr (count t,
                     t\<lparr>count := count t + 1,
                       N := (N t)(unat (count t) := \<lparr>nodeQ = Q, nodeT = T, nodeF = F\<rparr>)\<rparr>))"

subsection \<open>\<^verbatim>\<open>normaliseQTF\<close>: level-1 normalisation\<close>

text \<open>
  Level 1a, inverts (lines 354-374). The result is \<open>Inl F\<close> when the call returns \<open>F\<close> at
  once (\<open>Q = 0\<close>), else the triple with \<open>Q\<close> and \<open>F\<close> freed of the inverter bit, and the
  bit \<open>ibit\<close> to apply to the result.
\<close>

definition normalise_inverts :: "u32 \<Rightarrow> u32 \<Rightarrow> u32 \<Rightarrow> u32 + (u32 \<times> u32 \<times> u32 \<times> u32)" where
  "normalise_inverts Q T F =
    (let (Q1, T1, F1) = (if Q AND IBIT \<noteq> 0 then (Q XOR IBIT, F, T) else (Q, T, F)) in
     if Q1 = 0 then Inl F1
     else if F1 AND IBIT \<noteq> 0 then Inr (Q1, T1 XOR IBIT, F1 XOR IBIT, IBIT)
     else Inr (Q1, T1, F1, 0))"

text \<open>
  Level 1b, function grouping, with the dyadic ordering of level 1c (lines 407-515).
  \<open>Inl r\<close> is a collapse that returns \<open>r\<close>; \<open>Inr (Q, T, F)\<close> is the triple to store.
\<close>

definition normalise_grouping :: "u32 \<Rightarrow> u32 \<Rightarrow> u32 \<Rightarrow> u32 \<Rightarrow> u32 + (u32 \<times> u32 \<times> u32)" where
  "normalise_grouping Q T F ibit =
    (if T AND IBIT \<noteq> 0 then
       (if T = IBIT then
          (if F = Q \<or> F = 0 then Inl (Q XOR ibit)
           else if Q > F then Inr (F, T, Q)
           else Inr (Q, T, F))
        else if (T AND NOT IBIT) = Q then
          (if F = Q \<or> F = 0 then Inl (0 XOR ibit)
           else Inr (F, T, 0))
        else
          (if F = Q \<or> F = 0 then Inr (Q, T, 0)
           else if (T AND NOT IBIT) = F then
             (if Q > F then Inr (F, Q XOR IBIT, Q) else Inr (Q, T, F))
           else Inr (Q, T, F)))
     else
       (if T = 0 then
          (if F = Q \<or> F = 0 then Inl (0 XOR ibit)
           else Inr (F, Q XOR IBIT, 0))
        else if T = Q then
          (if F = Q \<or> F = 0 then Inl (Q XOR ibit)
           else if Q > F then Inr (F, 0 XOR IBIT, Q)
           else Inr (Q, 0 XOR IBIT, F))
        else
          (if F = Q \<or> F = 0 then
             (if Q > T then Inr (T, Q, 0) else Inr (Q, T, 0))
           else if T = F then Inl (F XOR ibit)
           else Inr (Q, T, F))))"

text \<open>The three checks \<^verbatim>\<open>normaliseQTF\<close> makes of its arguments in paranoid mode.\<close>

definition normalise_sane :: "tinyTree_t \<Rightarrow> u32 \<Rightarrow> u32 \<Rightarrow> u32 \<Rightarrow> bool" where
  "normalise_sane t Q T F \<longleftrightarrow>
     (Q AND NOT IBIT) < count t \<and> (T AND NOT IBIT) < count t \<and> (F AND NOT IBIT) < count t"

text \<open>
  \<^verbatim>\<open>normaliseQTF\<close> (lines 338-532). In \<open>QnTF\<close>-only mode a surviving \<open>Q ? T : F\<close> is
  rewritten to \<open>Q ? \<not>(Q ? \<not>T : F) : F\<close> by a recursive call before the node is stored.
\<close>

function normaliseQTF :: "tinyTree_t \<Rightarrow> u32 \<Rightarrow> u32 \<Rightarrow> u32 \<Rightarrow> fault_t + (u32 \<times> tinyTree_t)" where
  "normaliseQTF t Q T F =
    (if paranoid t \<and> \<not> normalise_sane t Q T F then Inl AssertionFailed
     else
       case normalise_inverts Q T F of
         Inl r \<Rightarrow> Inr (r, t)
       | Inr (Q1, T1, F1, ibit) \<Rightarrow>
           (case normalise_grouping Q1 T1 F1 ibit of
              Inl r \<Rightarrow> Inr (r, t)
            | Inr (Q2, T2, F2) \<Rightarrow>
                if qntf t \<and> NOT T2 AND IBIT \<noteq> 0 then
                  (case normaliseQTF t Q2 (T2 XOR IBIT) F2 of
                     Inl e \<Rightarrow> Inl e
                   | Inr (r, t1) \<Rightarrow>
                       (case basicNode t1 Q2 (r XOR IBIT) F2 of
                          Inl e \<Rightarrow> Inl e
                        | Inr (nid, t2) \<Rightarrow> Inr (nid XOR ibit, t2)))
                else
                  (case basicNode t Q2 T2 F2 of
                     Inl e \<Rightarrow> Inl e
                   | Inr (nid, t2) \<Rightarrow> Inr (nid XOR ibit, t2))))"
  by pat_completeness auto
termination
proof (relation "measure (\<lambda>(t, Q, T, F). if \<not> bit Q 31 \<and> \<not> bit F 31 \<and> bit T 31 then 0 else 1)")
  show "wf (measure (\<lambda>(t, Q, T, F). if \<not> bit Q 31 \<and> \<not> bit F 31 \<and> bit T 31 then 0 else (1::nat)))"
    by simp
next
  fix t :: tinyTree_t and Q T F Q1 T1 F1 ibit Q2 T2 F2 :: u32 and b y ya ba yc
  assume inv: "normalise_inverts Q T F = Inr b" "(Q1, y) = b" "(T1, ya) = y" "(F1, ibit) = ya"
    and grp: "normalise_grouping Q1 T1 F1 ibit = Inr ba" "(Q2, yc) = ba" "(T2, F2) = yc"
    and rw: "qntf t \<and> NOT T2 AND IBIT \<noteq> 0"
  have pow: "IBIT = 2 ^ 31" by (simp add: IBIT_def)
  have and_iff: "x AND IBIT = 0 \<longleftrightarrow> \<not> bit x 31" for x :: u32
    unfolding pow by (rule and_exp_eq_0_iff_not_bit)
  have bit_IBIT: "bit IBIT n \<longleftrightarrow> n = 31" for n
  proof -
    have "bit ((2::u32) ^ 31) n \<longleftrightarrow> n = 31"
      by (simp only: bit_exp_iff possible_bit_word) auto
    then show ?thesis by (simp only: pow)
  qed
  have bit_xor: "bit (x XOR IBIT) 31 \<longleftrightarrow> \<not> bit x 31" for x :: u32
    by (simp add: bit_xor_iff bit_IBIT)
  have not_and: "NOT x AND IBIT = 0 \<longleftrightarrow> bit x 31" for x :: u32
    by (simp add: and_iff bit_not_iff)
  from inv have i: "normalise_inverts Q T F = Inr (Q1, T1, F1, ibit)" by auto
  from grp have g: "normalise_grouping Q1 T1 F1 ibit = Inr (Q2, T2, F2)" by auto
  from rw have T2: "\<not> bit T2 31" by (simp add: not_and)
  from i have c1: "\<not> bit Q1 31" "\<not> bit F1 31"
    by (auto simp: normalise_inverts_def Let_def and_iff bit_xor split: if_splits prod.splits)
  from g c1 T2 have c2: "\<not> bit Q2 31" "\<not> bit F2 31" "\<not> bit T1 31"
    by (auto simp: normalise_grouping_def and_iff bit_xor bit_IBIT split: if_splits)
  from i c2(3) have caller: "\<not> (\<not> bit Q 31 \<and> \<not> bit F 31 \<and> bit T 31)"
    by (auto simp: normalise_inverts_def Let_def and_iff bit_xor split: if_splits prod.splits)
  from c2 T2 caller
  show "((t, Q2, T2 XOR IBIT, F2), t, Q, T, F)
        \<in> measure (\<lambda>(t, Q, T, F). if \<not> bit Q 31 \<and> \<not> bit F 31 \<and> bit T 31 then 0 else 1)"
    by (simp add: bit_xor)
qed

declare normaliseQTF.simps [simp del]


text \<open>
  A tree object in zeroed storage on which \<^verbatim>\<open>clear()\<close> has not been called (the
  constructor sets \<^verbatim>\<open>flags\<close> only): \<open>count\<close> is 0. \<open>tree_empty\<close> is that tree cleared, an
  empty tree in the default mode.
\<close>

definition tree_raw :: tinyTree_t where
  "tree_raw =
    \<lparr>paranoid = False, qntf = False, count = 0,
     N = (\<lambda>nid. \<lparr>nodeQ = 0, nodeT = 0, nodeF = 0\<rparr>), root = 0\<rparr>"

definition tree_empty :: tinyTree_t where
  "tree_empty =
    clear \<lparr>paranoid = False, qntf = False, count = 0,
           N = (\<lambda>nid. \<lparr>nodeQ = 0, nodeT = 0, nodeF = 0\<rparr>), root = 0\<rparr>"

text \<open>The empty tree after \<^verbatim>\<open>addNode(a, ~b, c)\<close>: one \<open>QnTF\<close> node, stored at id 10.\<close>

definition tree_one :: tinyTree_t where
  "tree_one =
    tree_empty\<lparr>count := 11,
               N := (N tree_empty)(10 := \<lparr>nodeQ = 1, nodeT = 2 XOR IBIT, nodeF = 3\<rparr>)\<rparr>"

text \<open>\<open>tree_raw\<close> after one and after two calls \<^verbatim>\<open>addNode(a, ~b, c)\<close>.\<close>

definition tree_raw_one :: tinyTree_t where
  "tree_raw_one =
    tree_raw\<lparr>count := 1,
             N := (N tree_raw)(0 := \<lparr>nodeQ = 1, nodeT = 2 XOR IBIT, nodeF = 3\<rparr>)\<rparr>"

definition tree_raw_two :: tinyTree_t where
  "tree_raw_two =
    tree_raw\<lparr>count := 2,
             N := (N tree_raw)(0 := \<lparr>nodeQ = 1, nodeT = 2 XOR IBIT, nodeF = 3\<rparr>,
                               1 := \<lparr>nodeQ = 1, nodeT = 2 XOR IBIT, nodeF = 3\<rparr>)\<rparr>"

text \<open>\<open>extends t t2\<close>: the tree \<open>t2\<close> has the flags of \<open>t\<close>, no fewer nodes, and the nodes of \<open>t\<close>
  unchanged.\<close>

definition extends :: "tinyTree_t \<Rightarrow> tinyTree_t \<Rightarrow> bool" where
  "extends t t2 \<longleftrightarrow>
     paranoid t2 = paranoid t \<and> qntf t2 = qntf t \<and> unat (count t) \<le> unat (count t2) \<and>
     (\<forall>i. TINYTREE_NSTART \<le> i \<and> i < unat (count t) \<longrightarrow> N t2 i = N t i)"


subsection \<open>\<^verbatim>\<open>decodeSafe\<close>: the safe parser\<close>

text \<open>The decode error codes, in the order of the \<^verbatim>\<open>enum\<close> (line 584).\<close>

datatype derr_t =
    DERR_OK
  | DERR_SYNTAX
  | DERR_PLACEHOLDER
  | DERR_OVERFLOW
  | DERR_UNDERFLOW
  | DERR_INCOMPLETE
  | DERR_SIZE

fun derr_code :: "derr_t \<Rightarrow> int" where
  "derr_code DERR_OK = 0"
| "derr_code DERR_SYNTAX = 1"
| "derr_code DERR_PLACEHOLDER = 2"
| "derr_code DERR_OVERFLOW = 3"
| "derr_code DERR_UNDERFLOW = 4"
| "derr_code DERR_INCOMPLETE = 5"
| "derr_code DERR_SIZE = 6"

text \<open>
  A C string ends at its first NUL. \<open>cstring\<close> is the part of a string the code walks;
  \<open>cstring_at s i\<close> is \<^verbatim>\<open>s[i]\<close>: the terminator at the end, undefined beyond it.
\<close>

definition cstring :: "string \<Rightarrow> string" where
  "cstring s = takeWhile (\<lambda>c. c \<noteq> CHR 0x00) s"

definition cstring_at :: "string \<Rightarrow> nat \<Rightarrow> fault_t + char" where
  "cstring_at s i =
    (if i < length (cstring s) then Inr (cstring s ! i)
     else if i = length (cstring s) then Inr (CHR 0x00)
     else Inl Undefined)"

text \<open>\<^verbatim>\<open>isalnum\<close>, \<^verbatim>\<open>islower\<close> and \<^verbatim>\<open>isdigit\<close> of \<^verbatim>\<open>ctype.h\<close>, in the C locale.\<close>

definition islower :: "char \<Rightarrow> bool" where
  "islower c \<longleftrightarrow> (of_char (CHR ''a'') :: nat) \<le> of_char c \<and> (of_char c :: nat) \<le> of_char (CHR ''z'')"

definition isupper :: "char \<Rightarrow> bool" where
  "isupper c \<longleftrightarrow> (of_char (CHR ''A'') :: nat) \<le> of_char c \<and> (of_char c :: nat) \<le> of_char (CHR ''Z'')"

definition isdigit :: "char \<Rightarrow> bool" where
  "isdigit c \<longleftrightarrow> (of_char (CHR ''0'') :: nat) \<le> of_char c \<and> (of_char c :: nat) \<le> of_char (CHR ''9'')"

definition isalnum :: "char \<Rightarrow> bool" where
  "isalnum c \<longleftrightarrow> isdigit c \<or> isupper c \<or> islower c"

text \<open>
  The locals of \<^verbatim>\<open>decodeSafe\<close>. \<open>stack\<close> (\<^verbatim>\<open>TINYTREE_MAXSTACK\<close> entries) and
  \<open>beenThere\<close> (\<^verbatim>\<open>TINYTREE_NEND\<close> entries) are arrays the code does not initialise: an
  entry is \<open>None\<close> until written.
\<close>

record decode_t =
  tree :: tinyTree_t
  stack :: "nat \<Rightarrow> u32 option"
  stackPos :: nat
  beenThere :: "nat \<Rightarrow> u32 option"
  nextNode :: nat

text \<open>
  How the walk goes on after one character: the call aborts, returns an error code,
  continues with the next character, or (after \<^verbatim>\<open>/\<close>) skips the rest of the string.
\<close>

datatype walk_t =
    Abort fault_t
  | Error derr_t decode_t
  | Continue decode_t
  | SkipRest decode_t

text \<open>\<^verbatim>\<open>stack[stackPos++] = v\<close>.\<close>

definition push :: "u32 \<Rightarrow> decode_t \<Rightarrow> walk_t" where
  "push v s =
    (if stackPos s < TINYTREE_MAXSTACK
     then Continue (s\<lparr>stack := (stack s)(stackPos s \<mapsto> v), stackPos := stackPos s + 1\<rparr>)
     else Abort Undefined)"

text \<open>
  The tail of every operator case but \<^verbatim>\<open><\<close>: with the operands popped (\<open>stackPos\<close> already
  lowered), push \<open>nid\<close> and record it for back-references,
  \<^verbatim>\<open>stack[stackPos++] = nid; beenThere[nextNode++] = nid\<close>.
\<close>

definition push_node :: "u32 \<Rightarrow> decode_t \<Rightarrow> walk_t" where
  "push_node nid s =
    (if stackPos s < TINYTREE_MAXSTACK \<and> nextNode s < TINYTREE_NEND
     then Continue (s\<lparr>stack := (stack s)(stackPos s \<mapsto> nid), stackPos := stackPos s + 1,
                      beenThere := (beenThere s)(nextNode s \<mapsto> nid),
                      nextNode := nextNode s + 1\<rparr>)
     else Abort Undefined)"

text \<open>
  The tail of the \<^verbatim>\<open><\<close> case (lines 780-781):
  \<^verbatim>\<open>stack[stackPos++] = nid; beenThere[stackPos++] = nid\<close>. The second statement indexes
  \<open>beenThere\<close> by \<open>stackPos\<close> and raises \<open>stackPos\<close> once more; \<open>nextNode\<close> stays.
\<close>

definition push_node_LT :: "u32 \<Rightarrow> decode_t \<Rightarrow> walk_t" where
  "push_node_LT nid s =
    (if stackPos s < TINYTREE_MAXSTACK \<and> stackPos s + 1 < TINYTREE_NEND
     then Continue (s\<lparr>stack := (stack s)(stackPos s \<mapsto> nid), stackPos := stackPos s + 2,
                      beenThere := (beenThere s)(stackPos s + 1 \<mapsto> nid)\<rparr>)
     else Abort Undefined)"

text \<open>
  A dyadic operator: underflow below two operands; else pop \<open>R\<close>, then \<open>L\<close>, and build the
  node \<open>mk L R\<close> gives the arguments of. A read of an entry never written is undefined.
\<close>

definition dyadic :: "(u32 \<Rightarrow> u32 \<Rightarrow> u32 \<times> u32 \<times> u32) \<Rightarrow> (u32 \<Rightarrow> decode_t \<Rightarrow> walk_t) \<Rightarrow> decode_t \<Rightarrow> walk_t" where
  "dyadic mk finish s =
    (if stackPos s < 2 then Error DERR_UNDERFLOW s
     else
       case (stack s (stackPos s - 1), stack s (stackPos s - 2)) of
         (Some R, Some L) \<Rightarrow>
           (case mk L R of (Q, T, F) \<Rightarrow>
              (case normaliseQTF (tree s) Q T F of
                 Inl e \<Rightarrow> Abort e
               | Inr (nid, t') \<Rightarrow> finish nid (s\<lparr>tree := t', stackPos := stackPos s - 2\<rparr>)))
       | _ \<Rightarrow> Abort Undefined)"

text \<open>A ternary operator: underflow below three operands; else pop \<open>F\<close>, \<open>T\<close>, \<open>Q\<close>.\<close>

definition ternary :: "(u32 \<Rightarrow> u32 \<Rightarrow> u32 \<Rightarrow> u32 \<times> u32 \<times> u32) \<Rightarrow> decode_t \<Rightarrow> walk_t" where
  "ternary mk s =
    (if stackPos s < 3 then Error DERR_UNDERFLOW s
     else
       case (stack s (stackPos s - 1), stack s (stackPos s - 2), stack s (stackPos s - 3)) of
         (Some F, Some T, Some Q) \<Rightarrow>
           (case mk Q T F of (Q', T', F') \<Rightarrow>
              (case normaliseQTF (tree s) Q' T' F' of
                 Inl e \<Rightarrow> Abort e
               | Inr (nid, t') \<Rightarrow> push_node nid (s\<lparr>tree := t', stackPos := stackPos s - 3\<rparr>)))
       | _ \<Rightarrow> Abort Undefined)"

text \<open>
  One round of the loop (lines 618-822) for the character \<open>c\<close>: the three guards, then
  the \<^verbatim>\<open>switch\<close>. The cases \<^verbatim>\<open>'a'\<close> to \<^verbatim>\<open>'i'\<close> differ only in the index into the skin and
  the cases \<^verbatim>\<open>'1'\<close> to \<^verbatim>\<open>'9'\<close> only in the distance; each group is one branch here. The
  guard on the skin reads \<^verbatim>\<open>pSkin[c - 'a']\<close> for every lower-case \<open>c\<close>.
\<close>

definition decodeSafe_char :: "string \<Rightarrow> char \<Rightarrow> decode_t \<Rightarrow> walk_t" where
  "decodeSafe_char pSkin c s =
    (if isalnum c \<and> stackPos s \<ge> TINYTREE_MAXSTACK then Error DERR_OVERFLOW s
     else if \<not> isalnum c \<and> unat (count (tree s)) \<ge> TINYTREE_NEND - 1 then Error DERR_SIZE s
     else
       case (if islower c then cstring_at pSkin (of_char c - of_char (CHR ''a'')) else Inr c) of
         Inl e \<Rightarrow> Abort e
       | Inr k \<Rightarrow>
           if islower c \<and> \<not> islower k then Error DERR_PLACEHOLDER s
           else if c = CHR ''0'' then push 0 s
           else if islower c \<and> (of_char c :: nat) \<le> of_char (CHR ''i'') then
             push (of_nat (TINYTREE_KSTART + of_char k - of_char (CHR ''a''))) s
           else if isdigit c then
             (let i = nextNode s - (of_char c - of_char (CHR ''0'')) in
              if i < TINYTREE_NEND then
                (case beenThere s i of Some v \<Rightarrow> push v s | None \<Rightarrow> Abort Undefined)
              else Abort Undefined)
           else if c = CHR ''>'' then dyadic (\<lambda>L R. (L, R XOR IBIT, 0)) push_node s
           else if c = CHR ''+'' then dyadic (\<lambda>L R. (L, 0 XOR IBIT, R)) push_node s
           else if c = CHR ''^'' then dyadic (\<lambda>L R. (L, R XOR IBIT, R)) push_node s
           else if c = CHR ''!'' then ternary (\<lambda>Q T F. (Q, T XOR IBIT, F)) s
           else if c = CHR ''&'' then dyadic (\<lambda>L R. (L, R, 0)) push_node s
           else if c = CHR ''<'' then dyadic (\<lambda>L R. (L, 0, R)) push_node_LT s
           else if c = CHR ''?'' then ternary (\<lambda>Q T F. (Q, T, F)) s
           else if c = CHR ''~'' then
             (if stackPos s < 1 then Error DERR_UNDERFLOW s
              else case stack s (stackPos s - 1) of
                     Some v \<Rightarrow> Continue (s\<lparr>stack := (stack s)(stackPos s - 1 \<mapsto> v XOR IBIT)\<rparr>)
                   | None \<Rightarrow> Abort Undefined)
           else if c = CHR ''/'' then SkipRest s
           else if c = CHR '' '' then Continue s
           else Error DERR_SYNTAX s)"

text \<open>The loop over the characters of the notation.\<close>

fun decodeSafe_walk :: "string \<Rightarrow> string \<Rightarrow> decode_t \<Rightarrow> walk_t" where
  "decodeSafe_walk pSkin [] s = Continue s"
| "decodeSafe_walk pSkin (c # cs) s =
    (case decodeSafe_char pSkin c s of
       Continue s' \<Rightarrow> decodeSafe_walk pSkin cs s'
     | SkipRest s' \<Rightarrow> Continue s'
     | Abort e \<Rightarrow> Abort e
     | Error e s' \<Rightarrow> Error e s')"

text \<open>The state before the first character (lines 607-615).\<close>

definition decodeSafe_init :: "tinyTree_t \<Rightarrow> decode_t" where
  "decodeSafe_init t =
    \<lparr>tree = t\<lparr>count := of_nat TINYTREE_NSTART, root := 0\<rparr>,
     stack = (\<lambda>i. None), stackPos = 0, beenThere = (\<lambda>i. None),
     nextNode = TINYTREE_NSTART\<rparr>"

definition decodeSafe_scan :: "tinyTree_t \<Rightarrow> string \<Rightarrow> string \<Rightarrow> walk_t" where
  "decodeSafe_scan t pName pSkin = decodeSafe_walk pSkin (cstring pName) (decodeSafe_init t)"

text \<open>
  \<^verbatim>\<open>decodeSafe\<close>: the error code returned and the tree as the call leaves it, or the fault
  that ends the call.
\<close>

definition decodeSafe :: "tinyTree_t \<Rightarrow> string \<Rightarrow> string \<Rightarrow> fault_t + (derr_t \<times> tinyTree_t)" where
  "decodeSafe t pName pSkin =
    (case decodeSafe_scan t pName pSkin of
       Abort e \<Rightarrow> Inl e
     | Error e s \<Rightarrow> Inr (e, tree s)
     | SkipRest s \<Rightarrow> Inl Undefined
     | Continue s \<Rightarrow>
         if stackPos s \<noteq> 1 then Inr (DERR_INCOMPLETE, tree s)
         else (case stack s (stackPos s - 1) of
                 Some v \<Rightarrow> Inr (DERR_OK, (tree s)\<lparr>root := v\<rparr>)
               | None \<Rightarrow> Inl Undefined))"

subsection \<open>References and skins the parser can rely on\<close>







subsection \<open>\<^verbatim>\<open>encode\<close>: the canonical name of a tree\<close>

text \<open>
  The locals of the two walks of \<^verbatim>\<open>encode\<close>. The stack holds node ids, newest first
  (every entry read was pushed before); \<open>seen\<close> is the bit set \<^verbatim>\<open>beenThere\<close>, as the set
  of the ids whose bit \<^verbatim>\<open>1 << id\<close> is set; \<open>beenWhat\<close> is an array the code does not
  initialise. \<open>out\<close> is the skin written by the first walk and the name written by the
  second.
\<close>

record encode_t =
  e_stack :: "nat list"
  e_seen :: "nat set"
  e_beenWhat :: "nat \<Rightarrow> u32 option"
  e_nextNode :: u32
  e_out :: string

datatype encode_step_t = Failed fault_t | Next encode_t

text \<open>
  The operands a node pushes on its first visit, last pushed (first visited) first, or
  \<open>None\<close> for the shape \<^verbatim>\<open>Q?F:F\<close>, at which the code asserts. The two walks share the
  case split (lines 1138-1175 and 1250-1287).
\<close>

definition operands :: "tinyNode_t \<Rightarrow> nat list option" where
  "operands n =
    (let Q = unat (nodeQ n); To = unat (nodeT n AND NOT IBIT); Ti = nodeT n AND IBIT;
         F = unat (nodeF n) in
     if Ti \<noteq> 0 then
       (if F = 0 then Some [Q, To]
        else if To = 0 then Some [Q, F]
        else if F = To then Some [Q, F]
        else Some [Q, To, F])
     else
       (if F = 0 then Some [Q, To]
        else if To = 0 then Some [Q, F]
        else if F = To then None
        else Some [Q, To, F]))"

text \<open>The opcode of a node (lines 1296-1324), \<open>None\<close> at the asserted shape.\<close>

definition opcode :: "tinyNode_t \<Rightarrow> char option" where
  "opcode n =
    (let To = nodeT n AND NOT IBIT; Ti = nodeT n AND IBIT; F = nodeF n in
     if Ti \<noteq> 0 then
       (if F = 0 then Some (CHR ''>'')
        else if To = 0 then Some (CHR ''+'')
        else if F = To then Some (CHR ''^'')
        else Some (CHR ''!''))
     else
       (if F = 0 then Some (CHR ''&'')
        else if To = 0 then Some (CHR ''<'')
        else if F = To then None
        else Some (CHR ''?'')))"

text \<open>
  The first walk assigns a placeholder to an endpoint operand not seen before
  (lines 1184-1200): \<^verbatim>\<open>beenWhat[e] = 'a' + skinLen; pSkin[skinLen++] = 'a' + e - KSTART\<close>.
\<close>

definition assign_placeholder :: "nat \<Rightarrow> encode_t \<Rightarrow> encode_t" where
  "assign_placeholder e s =
    (if e < TINYTREE_NSTART \<and> e \<notin> e_seen s
     then s\<lparr>e_seen := insert e (e_seen s),
            e_beenWhat := (e_beenWhat s)(e \<mapsto> of_nat (of_char (CHR ''a'') + length (e_out s))),
            e_out := e_out s @ [char_of (of_char (CHR ''a'') + e - TINYTREE_KSTART)]\<rparr>
     else s)"

text \<open>
  One round of the first walk (lines 1121-1206). The node \<^verbatim>\<open>N[curr]\<close> is read as soon as
  \<open>curr\<close> is popped: outside the array for an id from \<^verbatim>\<open>TINYTREE_MAXNODES\<close> on. The test
  against 32 is the width of the shift \<^verbatim>\<open>1 << curr\<close>.
\<close>

definition encode_skin_step :: "tinyTree_t \<Rightarrow> encode_t \<Rightarrow> encode_step_t" where
  "encode_skin_step t s =
    (case e_stack s of
       [] \<Rightarrow> Failed Undefined
     | cur # rest \<Rightarrow>
         if \<not> cur < TINYTREE_MAXNODES then Failed Undefined
         else if \<not> cur < 32 then Failed Undefined
         else if cur \<notin> e_seen s then
           (case operands (N t cur) of
              None \<Rightarrow> Failed AssertionFailed
            | Some ops \<Rightarrow>
                if length (filter (\<lambda>x. x \<ge> TINYTREE_NSTART) ops) + length rest + 1 > TINYTREE_MAXSTACK
                then Failed Undefined
                else Next (s\<lparr>e_stack := filter (\<lambda>x. x \<ge> TINYTREE_NSTART) ops @ cur # rest,
                              e_seen := insert cur (e_seen s),
                              e_beenWhat := (e_beenWhat s)(cur \<mapsto> 0)\<rparr>))
         else
           (case e_beenWhat s cur of
              None \<Rightarrow> Failed Undefined
            | Some w \<Rightarrow>
                if w = 0 then
                  (let s1 = assign_placeholder (unat (nodeQ (N t cur))) (s\<lparr>e_stack := rest\<rparr>);
                       s2 = assign_placeholder (unat (nodeT (N t cur) AND NOT IBIT)) s1;
                       s3 = assign_placeholder (unat (nodeF (N t cur))) s2
                   in Next (s3\<lparr>e_beenWhat := (e_beenWhat s3)(cur \<mapsto> e_nextNode s3),
                                e_nextNode := e_nextNode s3 + 1\<rparr>))
                else Next (s\<lparr>e_stack := rest\<rparr>)))"

text \<open>\<^verbatim>\<open>pName[nameLen++] = c\<close>, into \<^verbatim>\<open>nameStorage[TINYTREE_NAMELEN + 1]\<close>.\<close>

definition emit :: "char \<Rightarrow> encode_t \<Rightarrow> encode_step_t" where
  "emit c s =
    (if length (e_out s) < TINYTREE_NAMELEN + 1 then Next (s\<lparr>e_out := e_out s @ [c]\<rparr>)
     else Failed Undefined)"

text \<open>
  One round of the second walk (lines 1219-1338); \<^verbatim>\<open>N[curr]\<close> is read once \<open>curr\<close> is known
  not to be an endpoint.
\<close>

definition encode_name_step :: "tinyTree_t \<Rightarrow> bool \<Rightarrow> encode_t \<Rightarrow> encode_step_t" where
  "encode_name_step t withSkin s =
    (case e_stack s of
       [] \<Rightarrow> Failed Undefined
     | cur # rest \<Rightarrow>
         if cur < TINYTREE_NSTART then
           (if cur = 0 then emit (CHR ''0'') (s\<lparr>e_stack := rest\<rparr>)
            else if \<not> withSkin
            then emit (char_of (of_char (CHR ''a'') + cur - TINYTREE_KSTART)) (s\<lparr>e_stack := rest\<rparr>)
            else (case e_beenWhat s cur of
                    None \<Rightarrow> Failed Undefined
                  | Some w \<Rightarrow> emit (char_of (unat w)) (s\<lparr>e_stack := rest\<rparr>)))
         else if \<not> cur < TINYTREE_MAXNODES then Failed Undefined
         else if \<not> cur < 32 then Failed Undefined
         else if cur \<notin> e_seen s then
           (case operands (N t cur) of
              None \<Rightarrow> Failed AssertionFailed
            | Some ops \<Rightarrow>
                if length ops + length rest + 1 > TINYTREE_MAXSTACK then Failed Undefined
                else Next (s\<lparr>e_stack := ops @ cur # rest,
                              e_seen := insert cur (e_seen s),
                              e_beenWhat := (e_beenWhat s)(cur \<mapsto> 0)\<rparr>))
         else
           (case e_beenWhat s cur of
              None \<Rightarrow> Failed Undefined
            | Some w \<Rightarrow>
                if w = 0 then
                  (case opcode (N t cur) of
                     None \<Rightarrow> Failed AssertionFailed
                   | Some c \<Rightarrow>
                       (case emit c (s\<lparr>e_stack := rest\<rparr>) of
                          Failed e \<Rightarrow> Failed e
                        | Next s1 \<Rightarrow>
                            Next (s1\<lparr>e_beenWhat := (e_beenWhat s1)(cur \<mapsto> e_nextNode s1),
                                     e_nextNode := e_nextNode s1 + 1\<rparr>)))
                else
                  (let backref = e_nextNode s - w in
                   if \<not> backref \<le> 9 then Failed AssertionFailed
                   else emit (char_of (of_char (CHR ''0'') + unat backref)) (s\<lparr>e_stack := rest\<rparr>))))"

text \<open>
  The measure under which both loops end: a first visit adds at most three entries to
  the stack and one id below 32 to \<open>seen\<close>; every other round pops an entry.
\<close>

definition encode_measure :: "encode_t \<Rightarrow> nat" where
  "encode_measure s = 4 * card ({0..<32} - e_seen s) + length (e_stack s)"

text \<open>Each round of either walk lowers the measure.\<close>

lemma operands_length: "operands n = Some ops \<Longrightarrow> length ops \<le> 3"
  by (auto simp: operands_def Let_def split: if_splits)

lemma card_unseen_insert_gen:
  assumes "c < n" and "c \<notin> B"
  shows "card ({0..<n::nat} - insert c B) < card ({0..<n} - B)"
proof -
  have fin: "finite ({0..<n} - B)" by simp
  have "c \<in> {0..<n} - B" using assms by simp
  moreover have "c \<notin> {0..<n} - insert c B" by simp
  moreover have "{0..<n} - insert c B \<subseteq> {0..<n} - B" by blast
  ultimately have "{0..<n} - insert c B \<subset> {0..<n} - B" by blast
  with fin show ?thesis by (rule psubset_card_mono)
qed

lemma card_unseen_insert:
  "c < 32 \<Longrightarrow> c \<notin> B \<Longrightarrow> card ({0..<32::nat} - insert c B) < card ({0..<32} - B)"
  by (rule card_unseen_insert_gen)

lemma card_unseen_mono_gen: "card ({0..<n::nat} - insert c B) \<le> card ({0..<n} - B)"
proof (rule card_mono)
  show "finite ({0..<n} - B)" by simp
  show "{0..<n} - insert c B \<subseteq> {0..<n} - B" by blast
qed

lemma card_unseen_mono: "card ({0..<32::nat} - insert c B) \<le> card ({0..<32} - B)"
  by (rule card_unseen_mono_gen)

lemma assign_placeholder_measure:
  "encode_measure (assign_placeholder e s) \<le> encode_measure s"
  using card_unseen_mono [of e "e_seen s"]
  by (simp add: assign_placeholder_def encode_measure_def)

lemma assign_placeholder_stack: "e_stack (assign_placeholder e s) = e_stack s"
  by (simp add: assign_placeholder_def)

lemma encode_skin_step_measure:
  assumes "encode_skin_step t s = Next s'"
  shows "encode_measure s' < encode_measure s"
proof (cases "e_stack s")
  case Nil
  with assms show ?thesis by (simp add: encode_skin_step_def)
next
  case (Cons cur rest)
  have pop: "encode_measure (s\<lparr>e_stack := rest\<rparr>) < encode_measure s"
    by (simp add: encode_measure_def Cons)
  from assms Cons have c: "cur < 32" and cm: "cur < TINYTREE_MAXNODES"
    by (simp_all add: encode_skin_step_def split: if_splits)
  show ?thesis
  proof (cases "cur \<in> e_seen s")
    case False
    from assms Cons c cm False obtain ops where ops: "operands (N t cur) = Some ops"
      and s': "s' = s\<lparr>e_stack := filter (\<lambda>x. x \<ge> TINYTREE_NSTART) ops @ cur # rest,
                              e_seen := insert cur (e_seen s),
                              e_beenWhat := (e_beenWhat s)(cur \<mapsto> 0)\<rparr>"
      by (simp add: encode_skin_step_def split: if_splits option.splits)
    have "length (filter (\<lambda>x. x \<ge> TINYTREE_NSTART) ops) \<le> 3"
      using operands_length [OF ops] by (meson le_trans length_filter_le)
    with card_unseen_insert [OF c False] show ?thesis
      by (simp add: s' encode_measure_def Cons)
  next
    case True
    from assms Cons c cm True obtain w where w: "e_beenWhat s cur = Some w"
      by (simp add: encode_skin_step_def split: option.splits)
    define s1 where "s1 = assign_placeholder (unat (nodeQ (N t cur))) (s\<lparr>e_stack := rest\<rparr>)"
    define s2 where "s2 = assign_placeholder (unat (nodeT (N t cur) AND NOT IBIT)) s1"
    define s3 where "s3 = assign_placeholder (unat (nodeF (N t cur))) s2"
    have m3: "encode_measure s3 \<le> encode_measure (s\<lparr>e_stack := rest\<rparr>)"
      unfolding s3_def s2_def s1_def
      by (meson assign_placeholder_measure le_trans)
    show ?thesis
    proof (cases "w = 0")
      case True
      with assms Cons c cm \<open>cur \<in> e_seen s\<close> w
      have "s' = s3\<lparr>e_beenWhat := (e_beenWhat s3)(cur \<mapsto> e_nextNode s3),
                    e_nextNode := e_nextNode s3 + 1\<rparr>"
        by (simp add: encode_skin_step_def Let_def s3_def s2_def s1_def)
      then have "encode_measure s' = encode_measure s3" by (simp add: encode_measure_def)
      with m3 pop show ?thesis by simp
    next
      case False
      with assms Cons c cm \<open>cur \<in> e_seen s\<close> w have "s' = s\<lparr>e_stack := rest\<rparr>"
        by (simp add: encode_skin_step_def)
      with pop show ?thesis by simp
    qed
  qed
qed

lemma emit_measure: "emit c s = Next s' \<Longrightarrow> encode_measure s' = encode_measure s"
  by (auto simp: emit_def encode_measure_def split: if_splits)

lemma encode_name_step_measure:
  assumes "encode_name_step t k s = Next s'"
  shows "encode_measure s' < encode_measure s"
proof (cases "e_stack s")
  case Nil
  with assms show ?thesis by (simp add: encode_name_step_def)
next
  case (Cons cur rest)
  have pop: "encode_measure (s\<lparr>e_stack := rest\<rparr>) < encode_measure s"
    by (simp add: encode_measure_def Cons)
  show ?thesis
  proof (cases "cur < TINYTREE_NSTART")
    case True
    with assms Cons obtain c where "emit c (s\<lparr>e_stack := rest\<rparr>) = Next s'"
      by (auto simp: encode_name_step_def split: if_splits option.splits)
    from emit_measure [OF this] pop show ?thesis by simp
  next
    case nst: False
    with assms Cons have c: "cur < 32" and cm: "cur < TINYTREE_MAXNODES"
      by (simp_all add: encode_name_step_def split: if_splits)
    show ?thesis
    proof (cases "cur \<in> e_seen s")
      case False
      from assms Cons c cm False nst obtain ops where ops: "operands (N t cur) = Some ops"
        and s': "s' = s\<lparr>e_stack := ops @ cur # rest,
                              e_seen := insert cur (e_seen s),
                              e_beenWhat := (e_beenWhat s)(cur \<mapsto> 0)\<rparr>"
        by (simp add: encode_name_step_def split: if_splits option.splits)
      from card_unseen_insert [OF c False] operands_length [OF ops] show ?thesis
        by (simp add: s' encode_measure_def Cons)
    next
      case True
      from assms Cons c cm True nst obtain w where w: "e_beenWhat s cur = Some w"
        by (simp add: encode_name_step_def split: option.splits)
      show ?thesis
      proof (cases "w = 0")
        case True
        with assms Cons c cm \<open>cur \<in> e_seen s\<close> w nst
        obtain ch s1 where e: "emit ch (s\<lparr>e_stack := rest\<rparr>) = Next s1"
          and s': "s' = s1\<lparr>e_beenWhat := (e_beenWhat s1)(cur \<mapsto> e_nextNode s1),
                     e_nextNode := e_nextNode s1 + 1\<rparr>"
          by (simp add: encode_name_step_def split: option.splits encode_step_t.splits)
        from s' have "encode_measure s' = encode_measure s1" by (simp add: encode_measure_def)
        with emit_measure [OF e] pop show ?thesis by simp
      next
        case False
        with assms Cons c cm \<open>cur \<in> e_seen s\<close> w nst
        obtain ch where "emit ch (s\<lparr>e_stack := rest\<rparr>) = Next s'"
          by (simp add: encode_name_step_def Let_def split: if_splits)
        from emit_measure [OF this] pop show ?thesis by simp
      qed
    qed
  qed
qed

text \<open>
  The two loops, \<^verbatim>\<open>do { ... } while (stackPos > 0)\<close>: a round, then the test.
\<close>

function encode_skin_walk :: "tinyTree_t \<Rightarrow> encode_t \<Rightarrow> fault_t + encode_t" where
  "encode_skin_walk t s =
    (case encode_skin_step t s of
       Failed e \<Rightarrow> Inl e
     | Next s' \<Rightarrow> if e_stack s' = [] then Inr s' else encode_skin_walk t s')"
  by pat_completeness auto
termination
  by (relation "measure (\<lambda>(t, s). encode_measure s)") (auto simp: encode_skin_step_measure)

function encode_name_walk :: "tinyTree_t \<Rightarrow> bool \<Rightarrow> encode_t \<Rightarrow> fault_t + encode_t" where
  "encode_name_walk t withSkin s =
    (case encode_name_step t withSkin s of
       Failed e \<Rightarrow> Inl e
     | Next s' \<Rightarrow> if e_stack s' = [] then Inr s' else encode_name_walk t withSkin s')"
  by pat_completeness auto
termination
  by (relation "measure (\<lambda>(t, k, s). encode_measure s)") (auto simp: encode_name_step_measure)

declare encode_skin_walk.simps [simp del]
declare encode_name_walk.simps [simp del]

text \<open>
  \<^verbatim>\<open>encode(id, pSkin)\<close> (lines 1063-1349); \<open>rid\<close> is the entry point \<^verbatim>\<open>id\<close> and \<open>withSkin\<close> says whether \<^verbatim>\<open>pSkin\<close> is given. The
  result is the name and the skin written (empty without \<^verbatim>\<open>pSkin\<close>), or the fault that
  ends the call: a failed \<^verbatim>\<open>assert\<close> aborts the program and no name is returned.
\<close>

definition encode :: "tinyTree_t \<Rightarrow> u32 \<Rightarrow> bool \<Rightarrow> fault_t + (string \<times> string)" where
  "encode t rid withSkin =
    (let idn = unat (rid AND NOT IBIT);
         tilde = (if rid AND IBIT \<noteq> 0 then ''~'' else [])
     in
     if idn < TINYTREE_NSTART then
       (if idn = 0 then Inr (''0'' @ tilde, [])
        else if withSkin
        then Inr (''a'' @ tilde, [char_of (of_char (CHR ''a'') + idn - TINYTREE_KSTART)])
        else Inr ([char_of (of_char (CHR ''a'') + idn - TINYTREE_KSTART)] @ tilde, []))
     else
       case (if withSkin then
               (case encode_skin_walk t
                       \<lparr>e_stack = [idn], e_seen = {0}, e_beenWhat = (\<lambda>i. None),
                        e_nextNode = of_nat TINYTREE_NSTART, e_out = []\<rparr> of
                  Inl e \<Rightarrow> Inl e
                | Inr s \<Rightarrow>
                    if length (e_out s) \<le> MAXSLOTS then Inr (e_beenWhat s, e_out s)
                    else Inl AssertionFailed)
             else Inr ((\<lambda>i. None), [])) of
         Inl e \<Rightarrow> Inl e
       | Inr (what, skin) \<Rightarrow>
           (case encode_name_walk t withSkin
                   \<lparr>e_stack = [idn], e_seen = {0}, e_beenWhat = what,
                    e_nextNode = of_nat TINYTREE_NSTART, e_out = []\<rparr> of
              Inl e \<Rightarrow> Inl e
            | Inr s \<Rightarrow>
                (case (if rid AND IBIT \<noteq> 0 then emit (CHR ''~'') s else Next s) of
                   Failed e \<Rightarrow> Inl e
                 | Next s' \<Rightarrow>
                     if length (e_out s') \<le> TINYTREE_NAMELEN then Inr (e_out s', skin)
                     else Inl AssertionFailed)))"

section \<open>The member engine (\<^verbatim>\<open>genmember.cc\<close>)\<close>

text \<open>
  The records of \<^verbatim>\<open>database.h\<close> are not among the sources; their fields are the ones
  \<^verbatim>\<open>genmember.cc\<close> reads and writes. The flag words of a member and of a signature are
  modelled as the sets of the masks set in them, as the section masks of the planner are.
  \<^verbatim>\<open>member_t::MAXHEAD\<close> is 6: the spec gives a member up to 6 head references.
\<close>

datatype memmask_t = MEMMASK_SAFE | MEMMASK_COMP | MEMMASK_LOCKED | MEMMASK_DEPR | MEMMASK_DELETE

datatype sigmask_t = SIGMASK_SAFE

definition MAXHEAD :: nat where
  "MAXHEAD = 6"

record member_t =
  m_name :: string
  m_sid :: u32
  m_tid :: u32
  m_size :: u32
  m_numPlaceholder :: u32
  m_numEndpoint :: u32
  m_numBackRef :: u32
  m_flags :: "memmask_t set"
  Qmt :: u32
  Tmt :: u32
  Fmt :: u32
  heads :: "u32 list"
  nextMember :: u32

record signature_t =
  s_flags :: "sigmask_t set"
  s_size :: u32
  firstMember :: u32

record pair_t =
  sidmid :: u32
  p_tid :: u32

text \<open>\<^verbatim>\<open>memset(&member, 0, sizeof(member))\<close>.\<close>

definition member_zero :: member_t where
  "member_zero =
    \<lparr>m_name = [], m_sid = 0, m_tid = 0, m_size = 0, m_numPlaceholder = 0, m_numEndpoint = 0,
     m_numBackRef = 0, m_flags = {}, Qmt = 0, Tmt = 0, Fmt = 0, heads = replicate MAXHEAD 0,
     nextMember = 0\<rparr>"

subsection \<open>\<^verbatim>\<open>comparMember\<close>: the order of the finaliser's sort\<close>

text \<open>
  \<^verbatim>\<open>comparMember(lhs, rhs, arg)\<close> (lines 1080-1146), the comparator \<^verbatim>\<open>finaliseMembers\<close>
  hands to \<^verbatim>\<open>qsort_r\<close> over \<^verbatim>\<open>members[1..numMember)\<close>. \<open>lhs\<close> and \<open>rhs\<close> are the positions of
  the two records in the member array \<open>ms\<close> (the pointers compared by \<^verbatim>\<open>lhs == rhs\<close>).
  \<^verbatim>\<open>tinyTree_t::calcScoreName\<close> and \<^verbatim>\<open>tinyTree_t::compare\<close> on the trees loaded from the
  two names belong to a \<^verbatim>\<open>tinytree.h\<close> later than the one among the sources; they are the
  parameters \<open>calcScoreName\<close> and \<open>compareNames\<close>. The difference of the two unsigned
  scores is returned as an \<^verbatim>\<open>int\<close>.
\<close>

definition comparMember ::
    "(string \<Rightarrow> u32) \<Rightarrow> (string \<Rightarrow> string \<Rightarrow> int) \<Rightarrow> (nat \<Rightarrow> member_t) \<Rightarrow> nat \<Rightarrow> nat \<Rightarrow> int" where
  "comparMember calcScoreName compareNames ms lhs rhs =
    (let pMemberL = ms lhs; pMemberR = ms rhs in
     if lhs = rhs then 0
     else if m_sid pMemberL = 0 \<and> m_sid pMemberR = 0 then 0
     else if m_sid pMemberL = 0 then 1
     else if m_sid pMemberR = 0 then -1
     else if MEMMASK_SAFE \<in> m_flags pMemberL \<and> MEMMASK_SAFE \<notin> m_flags pMemberR then -1
     else if MEMMASK_SAFE \<notin> m_flags pMemberL \<and> MEMMASK_SAFE \<in> m_flags pMemberR then 1
     else if MEMMASK_DEPR \<in> m_flags pMemberL \<and> MEMMASK_DEPR \<notin> m_flags pMemberR then 1
     else if MEMMASK_DEPR \<notin> m_flags pMemberL \<and> MEMMASK_DEPR \<in> m_flags pMemberR then -1
     else if MEMMASK_COMP \<in> m_flags pMemberL \<and> MEMMASK_COMP \<notin> m_flags pMemberR then -1
     else if MEMMASK_COMP \<notin> m_flags pMemberL \<and> MEMMASK_COMP \<in> m_flags pMemberR then -1
     else
       let cmp = sint (calcScoreName (m_name pMemberL) - calcScoreName (m_name pMemberR)) in
       if cmp \<noteq> 0 then cmp
       else compareNames (m_name pMemberL) (m_name pMemberR))"

text \<open>
  Two safe members of the same score class: \<open>members_two 1\<close> is not a component,
  \<open>members_two 2\<close> is one. Scores by name length and names compared by length stand in
  for the two tree functions.
\<close>

definition members_two :: "nat \<Rightarrow> member_t" where
  "members_two i =
    (if i = 1 then member_zero\<lparr>m_name := ''ab+'', m_sid := 3, m_flags := {MEMMASK_SAFE}\<rparr>
     else if i = 2
     then member_zero\<lparr>m_name := ''ab^'', m_sid := 4, m_flags := {MEMMASK_SAFE, MEMMASK_COMP}\<rparr>
     else member_zero)"

definition score_by_length :: "string \<Rightarrow> u32" where
  "score_by_length s = of_nat (length s)"

definition compare_by_length :: "string \<Rightarrow> string \<Rightarrow> int" where
  "compare_by_length a b = int (length a) - int (length b)"

subsection \<open>The state of the engine\<close>

text \<open>
  The fields of the I/O context \<^verbatim>\<open>context_t\<close> that \<^verbatim>\<open>foundTreeMember\<close> uses. Of \<^verbatim>\<open>ctx.flags\<close>
  it tests the bits \<^verbatim>\<open>MAGICMASK_AINF\<close> and \<^verbatim>\<open>MAGICMASK_PARANOID\<close>; a tree constructed from
  the context takes its two flags from it.
\<close>

record context_t =
  progress :: u64
  tick :: u32
  restartTick :: u32
  opt_verbose :: u32
  ctx_AINF :: bool
  ctx_PARANOID :: bool
  ctx_QNTF :: bool

text \<open>
  A database with its contents: the counts of \<open>database_t\<close>, the pair count, and the
  sections as arrays indexed by id (the index sections by slot).
\<close>

record store_t = database_t +
  numPair :: u32
  members :: "nat \<Rightarrow> member_t"
  memberIndex :: "nat \<Rightarrow> u32"
  signatures :: "nat \<Rightarrow> signature_t"
  pairs :: "nat \<Rightarrow> pair_t"
  pairIndex :: "nat \<Rightarrow> u32"
  imprints :: "nat \<Rightarrow> u32 \<times> u32"
  imprintIndex :: "nat \<Rightarrow> u32"

text \<open>
  \<^verbatim>\<open>struct genmemberContext_t : dbtool_t\<close>: the fields \<^verbatim>\<open>foundTreeMember\<close> uses.
  \<^verbatim>\<open>opt_truncate\<close> is a \<^verbatim>\<open>double\<close> tested for being non-zero.
\<close>

record genmember_t = dbtool_t +
  opt_text :: u32
  opt_truncate :: bool
  pSafeScores :: "nat \<Rightarrow> u16"
  pStore :: store_t
  freeMemberRoot :: u32
  numEmpty :: u32
  numUnsafe :: u32
  skipDuplicate :: u32
  skipSize :: u32
  skipUnsafe :: u32
  truncated :: u64
  truncatedName :: string

text \<open>
  What the engine calls in \<^verbatim>\<open>database.h\<close>, \<^verbatim>\<open>context.h\<close> and the later \<^verbatim>\<open>tinytree.h\<close>, none
  of them among the sources; each is a parameter. \<open>lookupMember\<close> and \<open>lookupPair\<close> give
  the slot of the index to look at; \<open>addMember\<close> is \<open>None\<close> when the section is full (a
  fatal error); \<open>saveString\<close> gives the name of a sub-tree, \<open>saveStringSkin\<close> its name and
  skin; \<open>loadStringSafe\<close> gives the tree \<^verbatim>\<open>tree2\<close> constructed from the context and loaded
  through the safe parser; \<open>newTree\<close> is a tree as its constructor leaves it.
\<close>

record ops_t =
  lookupMember :: "store_t \<Rightarrow> string \<Rightarrow> nat"
  addMember :: "store_t \<Rightarrow> string \<Rightarrow> (u32 \<times> store_t) option"
  lookupImprintAssociative :: "store_t \<Rightarrow> tinyTree_t \<Rightarrow> u32 \<times> u32"
  addImprintAssociative :: "store_t \<Rightarrow> tinyTree_t \<Rightarrow> u32 \<Rightarrow> u32 \<times> store_t"
  lookupFwdTransform :: "store_t \<Rightarrow> string \<Rightarrow> u32"
  lookupPair :: "store_t \<Rightarrow> u32 \<Rightarrow> u32 \<Rightarrow> nat"
  addPair :: "store_t \<Rightarrow> u32 \<Rightarrow> u32 \<Rightarrow> u32 \<times> store_t"
  saveString :: "tinyTree_t \<Rightarrow> u32 \<Rightarrow> string"
  saveStringSkin :: "tinyTree_t \<Rightarrow> u32 \<Rightarrow> string \<times> string"
  loadStringSafe :: "context_t \<Rightarrow> string \<Rightarrow> tinyTree_t"
  newTree :: "context_t \<Rightarrow> tinyTree_t"
  compareTree :: "tinyTree_t \<Rightarrow> u32 \<Rightarrow> tinyTree_t \<Rightarrow> u32 \<Rightarrow> int"
  updateSpeed :: "context_t \<Rightarrow> context_t"
  VERBOSE_TICK :: u32

definition OPTTEXT_WON :: u32 where "OPTTEXT_WON = 1"
definition OPTTEXT_COMPARE :: u32 where "OPTTEXT_COMPARE = 2"

subsection \<open>\<^verbatim>\<open>findHeadTail\<close>\<close>

text \<open>
  The member id a name resolves to (lines 416-432, and again for \<open>T\<close>, \<open>F\<close> and each
  head): the literal name first; if its slot is empty, the name reloaded through the safe
  parser and saved again. The result is the skin in force and the member id found.
\<close>

definition lookupName :: "ops_t \<Rightarrow> context_t \<Rightarrow> store_t \<Rightarrow> string \<times> string \<Rightarrow> string \<Rightarrow> string \<times> u32" where
  "lookupName ops ctx st fast slowName =
    (let ix = lookupMember ops st (fst fast) in
     if memberIndex st ix = 0 then
       (let tree2 = loadStringSafe ops ctx slowName;
            slow = saveStringSkin ops tree2 (root tree2)
        in (snd slow, memberIndex st (lookupMember ops st (fst slow))))
     else (snd fast, memberIndex st ix))"

text \<open>
  One tail (lines 413-449 for \<open>Q\<close>; the blocks for \<open>T\<close> and \<open>F\<close> repeat it): \<open>None\<close> when the
  component is not found or is unsafe, else the pair id of (member, transform), interned
  on the way.
\<close>

definition findTail :: "ops_t \<Rightarrow> context_t \<Rightarrow> store_t \<Rightarrow> tinyTree_t \<Rightarrow> u32 \<Rightarrow> u32 option \<times> store_t" where
  "findTail ops ctx st treeR X =
    (let (skin, Xmid) = lookupName ops ctx st (saveStringSkin ops treeR X) (saveString ops treeR X) in
     if Xmid = 0 \<or> MEMMASK_SAFE \<notin> m_flags (members st (unat Xmid)) then (None, st)
     else
       let Xtid = lookupFwdTransform ops st skin;
           ix = lookupPair ops st Xmid Xtid
       in if pairIndex st ix = 0 then
            (let (pid, st1) = addPair ops st Xmid Xtid
             in (Some pid, st1\<lparr>pairIndex := (pairIndex st1)(ix := pid)\<rparr>))
          else (Some (pairIndex st ix), st))"

text \<open>
  The heads. For the hot node \<open>iHead\<close>, the first scan (lines 553-567) walks from the root
  down and selects the nodes in use, ignoring the hot node. \<open>select\<close> is the set of the ids
  whose bit is set in the 32-bit word \<^verbatim>\<open>select\<close>: a shift \<^verbatim>\<open>1 << x\<close> by 32 or more is
  undefined. The nodes read are \<open>N[k]\<close> for \<open>k\<close> from the root down, within the array since
  \<^verbatim>\<open>findHeadTail\<close> has read \<open>N[root]\<close> before.
\<close>

fun head_select_scan :: "tinyTree_t \<Rightarrow> nat \<Rightarrow> nat list \<Rightarrow> nat set \<Rightarrow> fault_t + nat set" where
  "head_select_scan treeR iHead [] select = Inr select"
| "head_select_scan treeR iHead (k # ks) select =
    (if k \<noteq> iHead \<and> k \<in> select then
       (if \<not> k < TINYTREE_MAXNODES then Inl Undefined
        else
          let used = filter (\<lambda>x. x \<ge> TINYTREE_NSTART)
                       [unat (nodeQ (N treeR k)), unat (nodeT (N treeR k) AND NOT IBIT),
                        unat (nodeF (N treeR k))]
          in if list_ex (\<lambda>x. \<not> x < 32) used then Inl Undefined
             else head_select_scan treeR iHead ks (select \<union> set used))
     else head_select_scan treeR iHead ks select)"

definition head_select :: "tinyTree_t \<Rightarrow> nat \<Rightarrow> fault_t + nat set" where
  "head_select treeR iHead =
    (if \<not> unat (root treeR) < 32 then Inl Undefined
     else head_select_scan treeR iHead (rev [TINYTREE_NSTART..<Suc (unat (root treeR))])
            {unat (root treeR), 0})"

text \<open>
  The locals of the extraction loop (lines 579-640). \<open>what\<close> is the array
  \<^verbatim>\<open>what[TINYTREE_NEND]\<close>, not initialised but for its entry 0.
\<close>

record extract_t =
  x_tree :: tinyTree_t
  x_what :: "nat \<Rightarrow> u32 option"
  x_select :: "nat set"
  x_next :: u32

text \<open>
  "assign placeholder to endpoint or hot" (lines 588-599), for one operand \<open>x\<close>:
  \<^verbatim>\<open>if (!(select & (1 << x))) { what[x] = next++; select |= 1 << x; }\<close>.
\<close>

definition head_placeholder :: "nat \<Rightarrow> extract_t \<Rightarrow> fault_t + extract_t" where
  "head_placeholder x s =
    (if \<not> x < 32 then Inl Undefined
     else if x \<notin> x_select s then
       (if \<not> x < TINYTREE_NEND then Inl Undefined
        else Inr (s\<lparr>x_what := (x_what s)(x \<mapsto> x_next s), x_next := x_next s + 1,
                    x_select := insert x (x_select s)\<rparr>))
     else Inr s)"

text \<open>
  One round of the extraction loop, for the node \<open>k\<close> of the candidate. The node built is
  stored at \<^verbatim>\<open>tree.N[tree.count]\<close>, in the array as long as \<open>count\<close> is below
  \<^verbatim>\<open>TINYTREE_MAXNODES\<close>.
\<close>

definition head_extract_step :: "ops_t \<Rightarrow> tinyTree_t \<Rightarrow> nat \<Rightarrow> nat \<Rightarrow> extract_t \<Rightarrow> fault_t + extract_t" where
  "head_extract_step ops treeR iHead k s0 =
    (if k \<noteq> iHead \<and> k \<in> x_select s0 then
       (if \<not> k < TINYTREE_MAXNODES then Inl Undefined
        else
          let Q = unat (nodeQ (N treeR k)); Tu = unat (nodeT (N treeR k) AND NOT IBIT);
              Ti = nodeT (N treeR k) AND IBIT; F = unat (nodeF (N treeR k))
          in case head_placeholder Q s0 of
               Inl e \<Rightarrow> Inl e
             | Inr sQ \<Rightarrow>
                 (case head_placeholder Tu sQ of
                    Inl e \<Rightarrow> Inl e
                  | Inr sT \<Rightarrow>
                      (case head_placeholder F sT of
                         Inl e \<Rightarrow> Inl e
                       | Inr s1 \<Rightarrow>
                           (let tr = x_tree s1;
                                s = s1\<lparr>x_what := (x_what s1)(k \<mapsto> count tr),
                                      x_select := insert k (x_select s1)\<rparr>
                            in case (x_what s Q, x_what s Tu, x_what s F) of
                                 (Some wQ, Some wT, Some wF) \<Rightarrow>
                                   (let node =
                                      (if Tu = 0 \<and> Ti \<noteq> 0 \<and> compareTree ops tr wQ tr wF > 0
                                       then \<lparr>nodeQ = wF, nodeT = IBIT, nodeF = wQ\<rparr>
                                       else if Tu = F \<and> compareTree ops tr wQ tr wF > 0
                                       then \<lparr>nodeQ = wF, nodeT = wQ XOR IBIT, nodeF = wQ\<rparr>
                                       else if F = 0 \<and> Ti = 0 \<and> compareTree ops tr wQ tr wT > 0
                                       then \<lparr>nodeQ = wT, nodeT = wQ, nodeF = 0\<rparr>
                                       else \<lparr>nodeQ = wQ, nodeT = wT XOR Ti, nodeF = wF\<rparr>)
                                    in if \<not> unat (count tr) < TINYTREE_MAXNODES then Inl Undefined
                                       else Inr (s\<lparr>x_tree := tr\<lparr>N := (N tr)(unat (count tr) := node),
                                                                  count := count tr + 1\<rparr>\<rparr>))
                               | _ \<Rightarrow> Inl Undefined))))
     else Inr s0)"

fun head_extract_loop :: "ops_t \<Rightarrow> tinyTree_t \<Rightarrow> nat \<Rightarrow> nat list \<Rightarrow> extract_t \<Rightarrow> fault_t + extract_t" where
  "head_extract_loop ops treeR iHead [] s = Inr s"
| "head_extract_loop ops treeR iHead (k # ks) s =
    (case head_extract_step ops treeR iHead k s of
       Inl e \<Rightarrow> Inl e
     | Inr s' \<Rightarrow> head_extract_loop ops treeR iHead ks s')"

text \<open>
  The head of the candidate with the node \<open>iHead\<close> replaced by a placeholder
  (lines 547-643): the tree \<^verbatim>\<open>tree\<close> after the extraction, its root the last node.
\<close>

definition head_tree :: "ops_t \<Rightarrow> context_t \<Rightarrow> tinyTree_t \<Rightarrow> nat \<Rightarrow> fault_t + tinyTree_t" where
  "head_tree ops ctx treeR iHead =
    (case head_select treeR iHead of
       Inl e \<Rightarrow> Inl e
     | Inr select \<Rightarrow>
         (case head_extract_loop ops treeR iHead [TINYTREE_NSTART..<Suc (unat (root treeR))]
                 \<lparr>x_tree = clear (newTree ops ctx), x_what = [0 \<mapsto> 0],
                  x_select = select - {iHead},
                  x_next = of_nat TINYTREE_KSTART\<rparr> of
            Inl e \<Rightarrow> Inl e
          | Inr s \<Rightarrow> Inr ((x_tree s)\<lparr>root := count (x_tree s) - 1\<rparr>)))"

text \<open>
  The member id the head with the hot node \<open>iHead\<close> resolves to (lines 660-676): the name
  of the head tree first, then, if its slot is empty, the name reloaded through the safe
  parser; 0 when neither is in the index.
\<close>

definition headMid :: "ops_t \<Rightarrow> context_t \<Rightarrow> store_t \<Rightarrow> tinyTree_t \<Rightarrow> nat \<Rightarrow> fault_t + u32" where
  "headMid ops ctx st treeR iHead =
    (case head_tree ops ctx treeR iHead of
       Inl e \<Rightarrow> Inl e
     | Inr tr \<Rightarrow>
         (let fast = saveStringSkin ops tr (root tr)
          in Inr (snd (lookupName ops ctx st fast (fst fast)))))"

text \<open>
  The loop over the hot nodes (lines 546-705), from \<open>iHead\<close> on: \<open>Inr (False, m)\<close> when a
  head is not found or unsafe (the flag cleared), \<open>Inr (True, m)\<close> with the heads listed
  otherwise. \<open>numHead\<close> counts the heads listed.
\<close>

fun heads_loop :: "ops_t \<Rightarrow> context_t \<Rightarrow> store_t \<Rightarrow> tinyTree_t \<Rightarrow> nat list \<Rightarrow> nat \<Rightarrow> member_t \<Rightarrow> fault_t + (bool \<times> member_t)" where
  "heads_loop ops ctx st treeR [] numHead m = Inr (True, m)"
| "heads_loop ops ctx st treeR (iHead # rest) numHead m =
    (case headMid ops ctx st treeR iHead of
       Inl e \<Rightarrow> Inl e
     | Inr midHead \<Rightarrow>
         if midHead = 0 then Inr (False, m\<lparr>m_flags := m_flags m - {MEMMASK_SAFE}\<rparr>)
         else if MEMMASK_SAFE \<notin> m_flags (members st (unat midHead))
         then Inr (False, m\<lparr>m_flags := m_flags m - {MEMMASK_SAFE}\<rparr>)
         else if midHead \<in> set (takeWhile (\<lambda>h. h \<noteq> 0) (heads m))
         then heads_loop ops ctx st treeR rest numHead m
         else if \<not> numHead < MAXHEAD then Inl AssertionFailed
         else heads_loop ops ctx st treeR rest (numHead + 1)
                (m\<lparr>heads := (heads m)[numHead := midHead]\<rparr>))"




text \<open>
  \<^verbatim>\<open>findHeadTail(pMember, treeR)\<close> (lines 341-720). \<open>iMid\<close> is the value of
  \<^verbatim>\<open>pMember - pStore->members\<close>. The result is the value returned, the member as the call
  leaves it, and the store (pairs may have been interned). The tails are read from
  \<^verbatim>\<open>treeR.N[treeR.root]\<close>, an entry of the array only for a root below \<^verbatim>\<open>TINYTREE_MAXNODES\<close>.
\<close>

definition unsafe :: "member_t \<Rightarrow> member_t" where
  "unsafe m = m\<lparr>m_flags := m_flags m - {MEMMASK_SAFE}\<rparr>"

definition findHeadTail_sane :: "u32 \<Rightarrow> store_t \<Rightarrow> member_t \<Rightarrow> bool" where
  "findHeadTail_sane iMid st m \<longleftrightarrow>
     (Qmt m = 0 \<or> sidmid (pairs st (unat (Qmt m))) < iMid) \<and>
     (Tmt m = 0 \<or> sidmid (pairs st (unat (Tmt m))) < iMid) \<and>
     (Fmt m = 0 \<or> sidmid (pairs st (unat (Fmt m))) < iMid) \<and>
     list_all (\<lambda>h. h = 0 \<or> h < iMid) (take MAXHEAD (heads m))"

definition findHeadTail ::
    "ops_t \<Rightarrow> context_t \<Rightarrow> u32 \<Rightarrow> store_t \<Rightarrow> member_t \<Rightarrow> tinyTree_t \<Rightarrow> fault_t + (bool \<times> member_t \<times> store_t)" where
  "findHeadTail ops ctx iMid st pMember treeR =
    (if root treeR AND IBIT \<noteq> 0 then Inl AssertionFailed
     else
       let m0 = pMember\<lparr>m_flags := insert MEMMASK_SAFE (m_flags pMember)\<rparr> in
       if root treeR = 0 then
         (if m_name m0 \<noteq> ''0'' \<or> m_sid m0 \<noteq> 1 then Inl AssertionFailed
          else let p = pairIndex st (lookupPair ops st iMid 0)
               in Inr (True, m0\<lparr>m_tid := 0, Qmt := p, Tmt := p, Fmt := p\<rparr>, st))
       else if root treeR = of_nat TINYTREE_KSTART then
         (if m_name m0 \<noteq> ''a'' \<or> m_sid m0 \<noteq> 2 then Inl AssertionFailed
          else let p = pairIndex st (lookupPair ops st iMid 0)
               in Inr (True, m0\<lparr>m_tid := 0, Qmt := p, Tmt := p, Fmt := p\<rparr>, st))
       else if \<not> root treeR \<ge> of_nat TINYTREE_NSTART then Inl AssertionFailed
       else if \<not> unat (root treeR) < TINYTREE_MAXNODES then Inl Undefined
       else
         let n = N treeR (unat (root treeR)); Tu = nodeT n AND NOT IBIT in
         case findTail ops ctx st treeR (nodeQ n) of
           (None, st1) \<Rightarrow> Inr (False, unsafe m0, st1)
         | (Some q, st1) \<Rightarrow>
             (case findTail ops ctx st1 treeR Tu of
                (None, st2) \<Rightarrow> Inr (False, unsafe (m0\<lparr>Qmt := q\<rparr>), st2)
              | (Some tq, st2) \<Rightarrow>
                  (case (if nodeF n = Tu then (Some 0, st2)
                         else findTail ops ctx st2 treeR (nodeF n)) of
                     (None, st3) \<Rightarrow> Inr (False, unsafe (m0\<lparr>Qmt := q, Tmt := tq\<rparr>), st3)
                   | (Some f, st3) \<Rightarrow>
                       (case heads_loop ops ctx st3 treeR
                               [TINYTREE_NSTART..<unat (root treeR)] 0
                               (m0\<lparr>Qmt := q, Tmt := tq, Fmt := f,
                                   heads := replicate MAXHEAD 0\<rparr>) of
                          Inl e \<Rightarrow> Inl e
                        | Inr (found, m4) \<Rightarrow>
                            if found \<and> ctx_PARANOID ctx \<and> \<not> findHeadTail_sane iMid st3 m4
                            then Inl AssertionFailed
                            else Inr (found, m4, st3)))))"

subsection \<open>\<^verbatim>\<open>foundTreeMember\<close>\<close>

text \<open>
  The progress report at the head of the callback (lines 790-822). What it prints is not
  modelled; it calls \<^verbatim>\<open>ctx.updateSpeed()\<close> and resets the two tick flags.
\<close>

definition tickReport :: "ops_t \<Rightarrow> context_t \<Rightarrow> context_t" where
  "tickReport ops ctx =
    (if opt_verbose ctx \<ge> VERBOSE_TICK ops \<and> tick ctx \<noteq> 0
     then (updateSpeed ops ctx)\<lparr>restartTick := 0, tick := 0\<rparr>
     else ctx)"

text \<open>"Test for database overflow" (lines 838-840), in unsigned 32-bit arithmetic.\<close>

definition overflowing :: "genmember_t \<Rightarrow> bool" where
  "overflowing app \<longleftrightarrow>
     opt_truncate app \<and>
     (maxImprint (pStore app) - numImprint (pStore app) \<le> interleave (pStore app) \<or>
      maxSignature (pStore app) - numSignature (pStore app) \<le> 1)"

text \<open>
  The associative lookup (lines 854-871): the signature id, the transform id, and the
  store (add-if-not-found may have added imprints).
\<close>

definition classify :: "ops_t \<Rightarrow> context_t \<Rightarrow> genmember_t \<Rightarrow> tinyTree_t \<Rightarrow> u32 \<times> u32 \<times> store_t" where
  "classify ops ctx app treeR =
    (if ctx_AINF ctx \<and> readOnlyMode app = 0 then
       (let (sid, st) = addImprintAssociative ops (pStore app) treeR (numSignature (pStore app))
        in (sid, 0, st))
     else
       (let (sid, tid) = lookupImprintAssociative ops (pStore app) treeR
        in (sid, tid, pStore app)))"

text \<open>The early reject by size (lines 883-902).\<close>

definition tooLarge :: "genmember_t \<Rightarrow> store_t \<Rightarrow> u32 \<Rightarrow> tinyTree_t \<Rightarrow> bool" where
  "tooLarge app st sid treeR \<longleftrightarrow>
     (if SIGMASK_SAFE \<in> s_flags (signatures st (unat sid))
      then count treeR - of_nat TINYTREE_NSTART > ucast (pSafeScores app (unat sid))
      else count treeR - of_nat TINYTREE_NSTART > s_size (signatures st (unat sid)) + 1)"

text \<open>
  The inner loop of the group flush (lines 999-1014): every member loses the component
  references that resolve to the member \<open>fm\<close> about to be freed; a safe member holding
  one fails an assertion.
\<close>

definition clearRef :: "store_t \<Rightarrow> u32 \<Rightarrow> member_t \<Rightarrow> u32 \<Rightarrow> bool" where
  "clearRef st fm p mt \<longleftrightarrow> sidmid (pairs st (unat mt)) = fm"

fun clearRefs :: "u32 \<Rightarrow> nat list \<Rightarrow> store_t \<Rightarrow> fault_t + store_t" where
  "clearRefs fm [] st = Inr st"
| "clearRefs fm (iMid # rest) st =
    (let p = members st iMid in
     if (clearRef st fm p (Qmt p) \<or> clearRef st fm p (Tmt p) \<or> clearRef st fm p (Fmt p))
        \<and> MEMMASK_SAFE \<in> m_flags p
     then Inl AssertionFailed
     else clearRefs fm rest
            (st\<lparr>members := (members st)
                  (iMid := p\<lparr>Qmt := (if clearRef st fm p (Qmt p) then 0 else Qmt p),
                            Tmt := (if clearRef st fm p (Tmt p) then 0 else Tmt p),
                            Fmt := (if clearRef st fm p (Fmt p) then 0 else Fmt p)\<rparr>)\<rparr>))"

text \<open>
  The group flush (lines 997-1022): while the chain of the signature is not empty, clear
  the references to its head, unlink the head and push it on the free list
  (\<^verbatim>\<open>memberFree\<close>, lines 754-761). The chain is followed through \<open>nextMember\<close>; a walk that
  never reaches 0 does not return, which is the value \<open>None\<close>.
\<close>

partial_function (option) flushGroup :: "nat \<Rightarrow> genmember_t \<Rightarrow> (fault_t + genmember_t) option" where
  "flushGroup sid app =
    (if firstMember (signatures (pStore app) sid) = 0 then Some (Inr app)
     else
       case clearRefs (firstMember (signatures (pStore app) sid))
                      [1..<unat (numMember (pStore app))] (pStore app) of
         Inl e \<Rightarrow> Some (Inl e)
       | Inr st1 \<Rightarrow>
           flushGroup sid
             (app\<lparr>pStore :=
                    st1\<lparr>signatures := (signatures st1)
                           (sid := (signatures st1 sid)
                              \<lparr>firstMember :=
                                 nextMember (members st1 (unat (firstMember (signatures st1 sid))))\<rparr>),
                        members := (members st1)
                           (unat (firstMember (signatures st1 sid)) :=
                              member_zero\<lparr>nextMember := freeMemberRoot app\<rparr>)\<rparr>,
                  freeMemberRoot := firstMember (signatures st1 sid)\<rparr>))"

declare flushGroup.simps [code]

text \<open>
  \<^verbatim>\<open>memberAlloc\<close> (lines 731-745): pop the free list, or append through \<^verbatim>\<open>addMember\<close>. The
  result is the member id and the engine state; the record itself is overwritten by the
  caller.
\<close>

definition memberAlloc :: "ops_t \<Rightarrow> genmember_t \<Rightarrow> string \<Rightarrow> fault_t + (u32 \<times> genmember_t)" where
  "memberAlloc ops app pName =
    (let mid = freeMemberRoot app; st = pStore app in
     if mid \<noteq> 0 then
       Inr (mid, app\<lparr>freeMemberRoot := nextMember (members st (unat mid)),
                     pStore := st\<lparr>members := (members st)
                                (unat mid := (members st (unat mid))\<lparr>m_name := pName\<rparr>)\<rparr>\<rparr>)
     else
       case addMember ops st pName of
         None \<Rightarrow> Inl FatalExit
       | Some (mid', st') \<Rightarrow> Inr (mid', app\<lparr>pStore := st'\<rparr>))"

text \<open>
  The tail of the callback once the comparison \<open>cmp\<close> is not a rejection
  (lines 971-1067): flush on promotion, mark the group safe, admit the member, update the
  score of the group. \<open>promote\<close> says that \<open>cmp\<close> is \<^verbatim>\<open>'>'\<close>.
\<close>

definition admit ::
    "ops_t \<Rightarrow> context_t \<Rightarrow> genmember_t \<Rightarrow> tinyTree_t \<Rightarrow> string \<Rightarrow> nat \<Rightarrow> nat \<Rightarrow> member_t \<Rightarrow> bool \<Rightarrow>
     (fault_t + (bool \<times> context_t \<times> genmember_t)) option" where
  "admit ops ctx app0 treeR pNameR mix sid tmpMember promote =
    (case (if promote \<and> firstMember (signatures (pStore app0) sid) \<noteq> 0 then
             (if readOnlyMode app0 \<noteq> 0 then
                Some (Inr (app0\<lparr>pStore := (pStore app0)\<lparr>signatures := (signatures (pStore app0))
                              (sid := (signatures (pStore app0) sid)\<lparr>firstMember := 0\<rparr>)\<rparr>,
                            numEmpty := numEmpty app0 + 1\<rparr>))
              else
                (case flushGroup sid app0 of
                   None \<Rightarrow> None
                 | Some (Inl e) \<Rightarrow> Some (Inl e)
                 | Some (Inr a) \<Rightarrow> Some (Inr (a\<lparr>numEmpty := numEmpty a + 1\<rparr>))))
           else Some (Inr app0)) of
       None \<Rightarrow> None
     | Some (Inl e) \<Rightarrow> Some (Inl e)
     | Some (Inr app1) \<Rightarrow>
         (let app2 = (if promote
                      then app1\<lparr>pStore := (pStore app1)\<lparr>signatures := (signatures (pStore app1))
                                  (sid := (signatures (pStore app1) sid)
                                     \<lparr>s_flags := insert SIGMASK_SAFE
                                                   (s_flags (signatures (pStore app1) sid))\<rparr>)\<rparr>,
                                numUnsafe := numUnsafe app1 - 1\<rparr>
                      else app1);
              app3 = (if firstMember (signatures (pStore app2) sid) = 0
                      then app2\<lparr>numEmpty := numEmpty app2 - 1\<rparr> else app2);
              score = (\<lambda>a. a\<lparr>pSafeScores := (pSafeScores a)
                               (sid := ucast (count treeR - of_nat TINYTREE_NSTART))\<rparr>)
          in if readOnlyMode app3 \<noteq> 0 then
               Some (Inr (True, ctx,
                  score (app3\<lparr>pStore := (pStore app3)\<lparr>signatures := (signatures (pStore app3))
                            (sid := (signatures (pStore app3) sid)\<lparr>firstMember := 1\<rparr>)\<rparr>\<rparr>)))
             else
               (case memberAlloc ops app3 pNameR of
                  Inl e \<Rightarrow> Some (Inl e)
                | Inr (mid, app4) \<Rightarrow>
                    (let st = pStore app4 in
                     Some (Inr (True, ctx,
                       score (app4\<lparr>pStore := st
                          \<lparr>members := (members st)
                             (unat mid := tmpMember\<lparr>nextMember := firstMember (signatures st sid)\<rparr>),
                           signatures := (signatures st)
                             (sid := (signatures st sid)\<lparr>firstMember := mid\<rparr>),
                           memberIndex := (memberIndex st)(mix := mid)\<rparr>\<rparr>)))))))"

text \<open>
  The temporary member the callback fills in for the candidate (lines 920-931), after its
  \<^verbatim>\<open>memset\<close> to zero.
\<close>

definition candidate :: "tinyTree_t \<Rightarrow> string \<Rightarrow> u32 \<Rightarrow> u32 \<Rightarrow> u32 \<Rightarrow> u32 \<Rightarrow> u32 \<Rightarrow> member_t" where
  "candidate treeR pNameR sid tid numPlaceholder numEndpoint numBackRef =
    member_zero\<lparr>m_name := pNameR, m_sid := sid, m_tid := tid,
                m_size := count treeR - of_nat TINYTREE_NSTART,
                m_numPlaceholder := numPlaceholder,
                m_numEndpoint := numEndpoint,
                m_numBackRef := numBackRef\<rparr>"

text \<open>
  \<^verbatim>\<open>foundTreeMember\<close> (lines 785-1068). \<open>tmpMid\<close> is the value of
  \<^verbatim>\<open>&tmpMember - pStore->members\<close>, the difference of two unrelated pointers that
  \<^verbatim>\<open>findHeadTail\<close> computes for the temporary. The lines printed under \<^verbatim>\<open>--text\<close> are not
  modelled. The value returned by \<^verbatim>\<open>findHeadTail\<close> is assigned to \<^verbatim>\<open>found\<close> and not used
  (lines 934-936).
\<close>

definition foundTreeMember ::
    "ops_t \<Rightarrow> u32 \<Rightarrow> context_t \<Rightarrow> genmember_t \<Rightarrow> tinyTree_t \<Rightarrow> string \<Rightarrow> u32 \<Rightarrow> u32 \<Rightarrow> u32 \<Rightarrow>
     (fault_t + (bool \<times> context_t \<times> genmember_t)) option" where
  "foundTreeMember ops tmpMid ctx0 app treeR pNameR numPlaceholder numEndpoint numBackRef =
    (if truncated app \<noteq> 0 then Some (Inr (False, ctx0, app))
     else
       let ctx = tickReport ops ctx0;
           mix = lookupMember ops (pStore app) pNameR
       in
       if memberIndex (pStore app) mix \<noteq> 0
       then Some (Inr (True, ctx, app\<lparr>skipDuplicate := skipDuplicate app + 1\<rparr>))
       else if overflowing app
       then Some (Inr (False, ctx, app\<lparr>truncated := progress ctx, truncatedName := pNameR\<rparr>))
       else
         case classify ops ctx app treeR of (sid, tid, st) \<Rightarrow>
           if sid = 0 then Some (Inr (True, ctx, app\<lparr>pStore := st\<rparr>))
           else if tooLarge app st sid treeR
           then Some (Inr (True, ctx, app\<lparr>pStore := st, skipSize := skipSize app + 1\<rparr>))
           else
             case findHeadTail ops ctx tmpMid st
                    (candidate treeR pNameR sid tid numPlaceholder numEndpoint numBackRef)
                    treeR of
               Inl e \<Rightarrow> Some (Inl e)
             | Inr (found, tmpMember, st') \<Rightarrow>
                 if SIGMASK_SAFE \<in> s_flags (signatures st' (unat sid)) then
                   (if MEMMASK_SAFE \<notin> m_flags tmpMember
                    then Some (Inr (True, ctx, app\<lparr>pStore := st', skipUnsafe := skipUnsafe app + 1\<rparr>))
                    else admit ops ctx (app\<lparr>pStore := st'\<rparr>) treeR pNameR mix (unat sid)
                               tmpMember False)
                 else admit ops ctx (app\<lparr>pStore := st'\<rparr>) treeR pNameR mix (unat sid) tmpMember
                        (MEMMASK_SAFE \<in> m_flags tmpMember))"

subsection \<open>Conditions on a run of the callback\<close>





subsection \<open>A small database to run the engine on\<close>

text \<open>
  Stand-ins for the functions of \<^verbatim>\<open>database.h\<close>, used where a theorem needs a concrete run.
  The indices are kept as identity tables: the slot of a stored record is its id, the slot
  of an absent one is the next free id, which is empty. Names are saved with the encoder
  and reloaded with the safe parser of the model above.
\<close>

definition lookupMember_demo :: "store_t \<Rightarrow> string \<Rightarrow> nat" where
  "lookupMember_demo st nm =
    (case find (\<lambda>i. m_name (members st i) = nm) [1..<unat (numMember st)] of
       Some i \<Rightarrow> i
     | None \<Rightarrow> unat (numMember st))"

definition addMember_demo :: "store_t \<Rightarrow> string \<Rightarrow> (u32 \<times> store_t) option" where
  "addMember_demo st nm =
    (if numMember st < maxMember st
     then Some (numMember st,
                st\<lparr>numMember := numMember st + 1,
                   members := (members st)(unat (numMember st) := member_zero\<lparr>m_name := nm\<rparr>)\<rparr>)
     else None)"

definition lookupPair_demo :: "store_t \<Rightarrow> u32 \<Rightarrow> u32 \<Rightarrow> nat" where
  "lookupPair_demo st mid t =
    (case find (\<lambda>i. sidmid (pairs st i) = mid \<and> p_tid (pairs st i) = t) [1..<unat (numPair st)] of
       Some i \<Rightarrow> i
     | None \<Rightarrow> unat (numPair st))"

definition addPair_demo :: "store_t \<Rightarrow> u32 \<Rightarrow> u32 \<Rightarrow> u32 \<times> store_t" where
  "addPair_demo st mid t =
    (numPair st,
     st\<lparr>numPair := numPair st + 1,
        pairs := (pairs st)(unat (numPair st) := \<lparr>sidmid = mid, p_tid = t\<rparr>)\<rparr>)"

definition newTree_demo :: "context_t \<Rightarrow> tinyTree_t" where
  "newTree_demo ctx =
    \<lparr>paranoid = ctx_PARANOID ctx, qntf = ctx_QNTF ctx, count = 0,
     N = (\<lambda>nid. \<lparr>nodeQ = 0, nodeT = 0, nodeF = 0\<rparr>), root = 0\<rparr>"

definition saveString_demo :: "tinyTree_t \<Rightarrow> u32 \<Rightarrow> string" where
  "saveString_demo t rid = (case encode t rid False of Inr r \<Rightarrow> fst r | Inl e \<Rightarrow> [])"

definition saveStringSkin_demo :: "tinyTree_t \<Rightarrow> u32 \<Rightarrow> string \<times> string" where
  "saveStringSkin_demo t rid = (case encode t rid True of Inr r \<Rightarrow> r | Inl e \<Rightarrow> ([], []))"

definition loadStringSafe_demo :: "context_t \<Rightarrow> string \<Rightarrow> tinyTree_t" where
  "loadStringSafe_demo ctx nm =
    (case decodeSafe (newTree_demo ctx) nm ''abcdefghi'' of
       Inr r \<Rightarrow> snd r
     | Inl e \<Rightarrow> clear (newTree_demo ctx))"

text \<open>
  The associative index of the demo finds every candidate in signature group 3, under
  the identity transform.
\<close>

definition ops_demo :: ops_t where
  "ops_demo =
    \<lparr>lookupMember = lookupMember_demo,
     addMember = addMember_demo,
     lookupImprintAssociative = (\<lambda>st t. (3, 0)),
     addImprintAssociative = (\<lambda>st t markSid. (3, st)),
     lookupFwdTransform = (\<lambda>st skin. 0),
     lookupPair = lookupPair_demo,
     addPair = addPair_demo,
     saveString = saveString_demo,
     saveStringSkin = saveStringSkin_demo,
     loadStringSafe = loadStringSafe_demo,
     newTree = newTree_demo,
     compareTree = (\<lambda>a x b y. 0),
     updateSpeed = (\<lambda>ctx. ctx),
     VERBOSE_TICK = 3\<rparr>"

definition ctx_demo :: context_t where
  "ctx_demo =
    \<lparr>progress = 42, tick = 0, restartTick = 0, opt_verbose = 1,
     ctx_AINF = False, ctx_PARANOID = False, ctx_QNTF = False\<rparr>"

text \<open>
  Members 1 and 2 are the reserved \<^verbatim>\<open>"0"\<close> and \<^verbatim>\<open>"a"\<close>, both safe, in the safe groups 1 and
  2. Group 3 is a two-node signature that is unsafe and has no member yet.
\<close>

definition store_demo :: store_t where
  "store_demo =
    \<lparr>numSignature = 4, maxSignature = 100, signatureIndexSize = 503,
     numHint = 1, maxHint = 1, hintIndexSize = 7,
     interleave = 504, interleaveStep = 720,
     numImprint = 1513, maxImprint = 100000, imprintIndexSize = 500009,
     numMember = 3, maxMember = 100, memberIndexSize = 503,
     numPair = 1,
     members = (\<lambda>i. if i = 1 then member_zero\<lparr>m_name := ''0'', m_sid := 1,
                                               m_flags := {MEMMASK_SAFE}\<rparr>
                    else if i = 2 then member_zero\<lparr>m_name := ''a'', m_sid := 2,
                                                    m_flags := {MEMMASK_SAFE}\<rparr>
                    else member_zero),
     memberIndex = (\<lambda>k. if k = 1 then 1 else if k = 2 then 2 else 0),
     signatures = (\<lambda>i. if i = 1 then \<lparr>s_flags = {SIGMASK_SAFE}, s_size = 0, firstMember = 1\<rparr>
                       else if i = 2 then \<lparr>s_flags = {SIGMASK_SAFE}, s_size = 0, firstMember = 2\<rparr>
                       else if i = 3 then \<lparr>s_flags = {}, s_size = 2, firstMember = 0\<rparr>
                       else \<lparr>s_flags = {}, s_size = 0, firstMember = 0\<rparr>),
     pairs = (\<lambda>i. \<lparr>sidmid = 0, p_tid = 0\<rparr>),
     pairIndex = (\<lambda>k. 0),
     imprints = (\<lambda>i. (0, 0)),
     imprintIndex = (\<lambda>k. 0)\<rparr>"

text \<open>The engine after its constructor, on \<open>store_demo\<close>, writable, without \<^verbatim>\<open>--truncate\<close>.\<close>

definition app_demo :: genmember_t where
  "app_demo =
    \<lparr>opt_imprintIndexSize = 0, opt_hintIndexSize = 0, opt_interleave = 0, opt_maxHint = 0,
     opt_maxImprint = 0, opt_maxMember = 0, opt_maxSignature = 0, opt_memberIndexSize = 0,
     opt_signatureIndexSize = 0, copyOnWrite = 0, readOnlyMode = 0, rebuildSections = {},
     inheritSections = {},
     opt_text = 0, opt_truncate = False, pSafeScores = (\<lambda>sid. 0), pStore = store_demo,
     freeMemberRoot = 0, numEmpty = 1, numUnsafe = 1,
     skipDuplicate = 0, skipSize = 0, skipUnsafe = 0,
     truncated = 0, truncatedName = []\<rparr>"

text \<open>
  The same engine with \<^verbatim>\<open>--truncate\<close> and an imprint section with 100 free entries, fewer
  than the interleave.
\<close>

definition app_full :: genmember_t where
  "app_full = app_demo\<lparr>opt_truncate := True, pStore := store_demo\<lparr>maxImprint := 1613\<rparr>\<rparr>"

text \<open>
  The candidate \<^verbatim>\<open>cab+&\<close>: node 10 is \<^verbatim>\<open>ab+\<close>, the root node 11 is \<open>c & [10]\<close>. Its
  component \<open>T\<close> is \<^verbatim>\<open>ab+\<close>, which is no member of \<open>store_demo\<close>.
\<close>

definition tree_cand :: tinyTree_t where
  "tree_cand =
    tree_empty\<lparr>count := 12,
               N := (N tree_empty)(10 := \<lparr>nodeQ = 1, nodeT = IBIT, nodeF = 2\<rparr>,
                                   11 := \<lparr>nodeQ = 3, nodeT = 10, nodeF = 0\<rparr>),
               root := 11\<rparr>"






text \<open>The engine stopped by the overflow guard at progress 42 on the candidate.\<close>

definition app_truncated :: genmember_t where
  "app_truncated = app_full\<lparr>truncated := 42, truncatedName := ''cab+&''\<rparr>"

text \<open>The candidate \<^verbatim>\<open>a\<close>: no node, the root is the first variable.\<close>

definition tree_a :: tinyTree_t where
  "tree_a = tree_empty\<lparr>root := of_nat TINYTREE_KSTART\<rparr>"


section \<open>Properties of the section planner\<close>

lemma cover_div_mod:
  fixes n w M t :: nat
  assumes "n * w = M" and "t < M"
  shows "\<exists>k<n. \<exists>u<w. t = (k * w) mod M + u"
proof -
  have wpos: "0 < w" using assms by (cases w) auto
  let ?k = "t div w" and ?u = "t mod w"
  have k: "?k < n" using assms wpos
    by (metis less_mult_imp_div_less mult.commute)
  have "?k * w \<le> t" by simp
  then have "?k * w < M" using assms by linarith
  then have "(?k * w) mod M = ?k * w" by simp
  then have "t = (?k * w) mod M + ?u" by simp
  moreover have "?u < w" using wpos by simp
  ultimately show ?thesis using k by blast
qed

lemma metricsInterleave_Some:
  assumes "metricsInterleave i = Some m"
  shows "unat (numStored m) * unat (mi_interleaveStep m) = MAXTRANSFORM"
proof -
  from assms have mem: "unat i \<in> set allowedInterleaves"
    and m: "m = \<lparr>numStored = i, mi_interleaveStep = of_nat (MAXTRANSFORM div unat i)\<rparr>"
    by (auto simp: metricsInterleave_def split: if_splits)
  from mem have "unat i = 504 \<or> unat i = 120 \<or> unat i = 720 \<or> unat i = 5040 \<or> unat i = 15120
      \<or> unat i = 40320 \<or> unat i = 60480"
    by (simp add: allowedInterleaves_def)
  then show ?thesis
    by (elim disjE) (simp_all add: m MAXTRANSFORM_def)
qed

lemma storedTransforms_iff:
  "x \<in> set (storedTransforms m) \<longleftrightarrow>
     (\<exists>k<unat (numStored m). x = (k * unat (mi_interleaveStep m)) mod MAXTRANSFORM)"
  by (auto simp: storedTransforms_def)

lemma probedTransforms_iff:
  "x \<in> set (probedTransforms m) \<longleftrightarrow> x < unat (mi_interleaveStep m)"
  by (auto simp: probedTransforms_def)

text \<open>
  Claim C8, as amended. For every interleave of the preset table, the number of stored
  imprints times the interleave step is 9! = 362880, and every transform id below 9! is
  the sum of one stored transform id \<open>k * step mod 9!\<close> (\<open>k < numStored\<close>) and one
  probed transform id \<open>u < step\<close>.
\<close>

theorem interleave_product_cover:
  assumes "metricsInterleave i = Some m"
  shows "unat (numStored m) * unat (mi_interleaveStep m) = MAXTRANSFORM \<and>
         (\<forall>t<MAXTRANSFORM. \<exists>s\<in>set (storedTransforms m). \<exists>u\<in>set (probedTransforms m). t = s + u)"
proof
  show prod: "unat (numStored m) * unat (mi_interleaveStep m) = MAXTRANSFORM"
    by (rule metricsInterleave_Some [OF assms])
  show "\<forall>t<MAXTRANSFORM. \<exists>s\<in>set (storedTransforms m). \<exists>u\<in>set (probedTransforms m). t = s + u"
  proof (intro allI impI)
    fix t assume "t < MAXTRANSFORM"
    from cover_div_mod [OF prod this]
    obtain k u where "k < unat (numStored m)" "u < unat (mi_interleaveStep m)"
      "t = (k * unat (mi_interleaveStep m)) mod MAXTRANSFORM + u" by blast
    then have "(k * unat (mi_interleaveStep m)) mod MAXTRANSFORM \<in> set (storedTransforms m)"
      and "u \<in> set (probedTransforms m)"
      by (auto simp: storedTransforms_iff probedTransforms_iff)
    with \<open>t = (k * unat (mi_interleaveStep m)) mod MAXTRANSFORM + u\<close>
    show "\<exists>s\<in>set (storedTransforms m). \<exists>u\<in>set (probedTransforms m). t = s + u"
      by blast
  qed
qed

theorem interleave_product_cover_witness:
  "metricsInterleave 504 = Some \<lparr>numStored = 504, mi_interleaveStep = 720\<rparr> \<and>
   unat (504 :: u32) * unat (720 :: u32) = MAXTRANSFORM \<and>
   (\<exists>s u. s \<in> set (storedTransforms \<lparr>numStored = 504, mi_interleaveStep = 720\<rparr>) \<and>
          u \<in> set (probedTransforms \<lparr>numStored = 504, mi_interleaveStep = 720\<rparr>) \<and>
          (1000 :: nat) = s + u)"
proof -
  have h: "metricsInterleave 504 = Some \<lparr>numStored = 504, mi_interleaveStep = 720\<rparr>"
    by (simp add: metricsInterleave_def allowedInterleaves_def MAXTRANSFORM_def)
  have t: "(1000 :: nat) < MAXTRANSFORM" by (simp add: MAXTRANSFORM_def)
  from interleave_product_cover [OF h] t show ?thesis
    using h by (simp only: simp_thms metricsInterleave_t.simps) blast
qed

text \<open>
  Claim C8 as stated fails: the stored ids together with the probed ids, as a union of
  two sets, do not cover the transform range. At interleave 504 (step 720) the transform
  id 721 is below 9! but neither a multiple of the step nor below the step.
\<close>

theorem interleave_union_counterexample:
  "(case metricsInterleave 504 of
      None \<Rightarrow> False
    | Some m \<Rightarrow> (721 :: nat) < MAXTRANSFORM \<and>
                721 \<notin> set (storedTransforms m) \<union> set (probedTransforms m))"
proof -
  have h: "metricsInterleave 504 = Some \<lparr>numStored = 504, mi_interleaveStep = 720\<rparr>"
    by (simp add: metricsInterleave_def allowedInterleaves_def MAXTRANSFORM_def)
  have ne: "k * 720 mod 362880 \<noteq> 721" if "k < 504" for k :: nat
  proof -
    from that have "k * 720 < 362880" by simp
    then have "k * 720 mod 362880 = k * 720" by simp
    moreover have "(720 :: nat) dvd k * 720" by simp
    moreover have "\<not> (720 :: nat) dvd 721" by simp
    ultimately show ?thesis by metis
  qed
  have "721 \<notin> set (storedTransforms \<lparr>numStored = 504, mi_interleaveStep = 720\<rparr>)"
  proof
    assume "721 \<in> set (storedTransforms \<lparr>numStored = 504, mi_interleaveStep = 720\<rparr>)"
    then obtain k :: nat where "k < 504" "k * 720 mod 362880 = 721"
      by (auto simp: storedTransforms_iff MAXTRANSFORM_def)
    with ne show False by blast
  qed
  then show ?thesis
    by (simp add: h probedTransforms_iff MAXTRANSFORM_def)
qed

text \<open>
  Claim C3, as amended. A run of the planner that returns without a fatal error has
  \<open>output.max \<ge> input.num\<close> for the signature, hint and member sections; and a plan in
  which one of these three sections has \<open>output.max < input.num\<close> ends in the fatal
  error of the closing checks. The imprint section is not among the sections checked.
\<close>

theorem planner_fits_primary:
  "(sizeDatabaseSections ps app store db = Inr p \<longrightarrow>
      numSignature db \<le> maxSignature (fst p) \<and> numHint db \<le> maxHint (fst p) \<and>
      numMember db \<le> maxMember (fst p)) \<and>
   (planSections ps app store db = Inr p \<and>
      (maxSignature (fst p) < numSignature db \<or> maxHint (fst p) < numHint db \<or>
       maxMember (fst p) < numMember db) \<longrightarrow>
      sizeDatabaseSections ps app store db \<in>
        {Inl MaxSignatureTooSmall, Inl MaxHintTooSmall, Inl MaxMemberTooSmall})"
  by (auto simp: sizeDatabaseSections_def checkFits_def Let_def split: sum.splits if_splits)

lemmas planner_defs =
  sizeDatabaseSections_def planSections_def checkFits_def sizeSignatureData_def
  sizeSignatureIndex_def sizeHintData_def sizeHintIndex_def sizeInterleave_def
  sizeImprintData_def sizeImprintIndex_def sizeMemberData_def sizeMemberIndex_def

lemmas planner_fixture_defs =
  presets_none_def dbtool_init_def db_empty_def db_small_def metricsInterleave_def
  allowedInterleaves_def MAXTRANSFORM_def

theorem planner_fits_primary_witness:
  "(case sizeDatabaseSections presets_none dbtool_init db_empty db_small of
      Inl e \<Rightarrow> False
    | Inr p \<Rightarrow> numSignature db_small \<le> maxSignature (fst p) \<and>
               numHint db_small \<le> maxHint (fst p) \<and>
               numMember db_small \<le> maxMember (fst p)) \<and>
   (case planSections presets_none (dbtool_init\<lparr>opt_maxMember := 2\<rparr>) db_empty db_small of
      Inl e \<Rightarrow> False
    | Inr p \<Rightarrow> maxMember (fst p) < numMember db_small) \<and>
   sizeDatabaseSections presets_none (dbtool_init\<lparr>opt_maxMember := 2\<rparr>) db_empty db_small
     \<in> {Inl MaxSignatureTooSmall, Inl MaxHintTooSmall, Inl MaxMemberTooSmall}"
proof -
  obtain p where ok: "sizeDatabaseSections presets_none dbtool_init db_empty db_small = Inr p"
    by (simp add: planner_defs planner_fixture_defs Let_def)
  obtain q where plan: "planSections presets_none (dbtool_init\<lparr>opt_maxMember := 2\<rparr>)
      db_empty db_small = Inr q" and small: "maxMember (fst q) < numMember db_small"
    by (simp add: planner_defs planner_fixture_defs Let_def)
  from planner_fits_primary [of presets_none dbtool_init db_empty db_small p] ok
  have one: "numSignature db_small \<le> maxSignature (fst p) \<and>
      numHint db_small \<le> maxHint (fst p) \<and> numMember db_small \<le> maxMember (fst p)"
    by blast
  from planner_fits_primary
    [of presets_none "dbtool_init\<lparr>opt_maxMember := 2\<rparr>" db_empty db_small q] plan small
  have two: "sizeDatabaseSections presets_none (dbtool_init\<lparr>opt_maxMember := 2\<rparr>)
      db_empty db_small
      \<in> {Inl MaxSignatureTooSmall, Inl MaxHintTooSmall, Inl MaxMemberTooSmall}"
    by blast
  show ?thesis using ok one plan small two by simp
qed

text \<open>
  Claim C3 as stated fails for the imprint section: with \<^verbatim>\<open>--maximprint=5\<close> and an input
  database holding 100 imprints at the same interleave, the planner returns without a
  fatal error and the output has \<open>maxImprint = 5 < 100 = numImprint\<close>.
\<close>

theorem planner_imprint_counterexample:
  "(case sizeDatabaseSections presets_none (dbtool_init\<lparr>opt_maxImprint := 5\<rparr>)
           db_empty db_small of
      Inl e \<Rightarrow> False
    | Inr p \<Rightarrow> maxImprint (fst p) < numImprint db_small)"
  by (simp add: planner_defs planner_fixture_defs Let_def)

section \<open>Properties of the micro-tree\<close>

subsection \<open>The inverter bit\<close>

lemma IBIT_pow: "IBIT = 2 ^ 31" by (simp add: IBIT_def)

lemma and_IBIT_eq_0_iff: "x AND IBIT = 0 \<longleftrightarrow> \<not> bit x 31"
  unfolding IBIT_pow by (rule and_exp_eq_0_iff_not_bit)

lemma bit_IBIT: "bit IBIT n \<longleftrightarrow> n = 31"
proof -
  have "bit ((2::u32) ^ 31) n \<longleftrightarrow> n = 31"
    by (simp only: bit_exp_iff possible_bit_word) auto
  then show ?thesis by (simp only: IBIT_pow)
qed


lemma not_and_IBIT_eq_0_iff: "NOT x AND IBIT = 0 \<longleftrightarrow> bit x 31"
  by (simp add: and_IBIT_eq_0_iff bit_not_iff)




lemma NSTART_val: "TINYTREE_NSTART = 10"
  by (simp add: TINYTREE_NSTART_def TINYTREE_KSTART_def MAXSLOTS_def)

lemma NEND_val: "TINYTREE_NEND = 28"
  by (simp add: TINYTREE_NEND_def TINYTREE_MAXNODES_def NSTART_val MAXSLOTS_def)

lemma MAXNODES_val: "TINYTREE_MAXNODES = 18"
  by (simp add: TINYTREE_MAXNODES_def MAXSLOTS_def)

lemma unat_count_Suc: "unat (c::u32) < TINYTREE_NEND \<Longrightarrow> unat (c + 1) = Suc (unat c)"
  by (simp add: NEND_val unat_word_ariths)


text \<open>The first match of \<open>find\<close> on an interval of node ids.\<close>

lemma find_upt_Some:
  "find P [a..<b] = Some i \<Longrightarrow> a \<le> i \<and> i < b \<and> P i \<and> (\<forall>j. a \<le> j \<and> j < i \<longrightarrow> \<not> P j)"
  by (auto simp: find_Some_iff nth_upt) (metis add_lessD1 le_add_diff_inverse less_diff_conv2 nat_add_left_cancel_less nth_upt)

lemma find_upt_None: "find P [a..<b] = None \<longleftrightarrow> (\<forall>j. a \<le> j \<and> j < b \<longrightarrow> \<not> P j)"
  by (auto simp: find_None_iff)

lemma find_append:
  "find P (xs @ ys) = (case find P xs of None \<Rightarrow> find P ys | Some x \<Rightarrow> Some x)"
  by (induction xs) auto

lemma find_upt_first:
  "a \<le> i \<Longrightarrow> i < b \<Longrightarrow> P i \<Longrightarrow> (\<forall>j. a \<le> j \<and> j < i \<longrightarrow> \<not> P j) \<Longrightarrow> find P [a..<b] = Some i"
proof (induction b)
  case 0 then show ?case by simp
next
  case (Suc b)
  show ?case
  proof (cases "i < b")
    case True
    with Suc have "find P [a..<b] = Some i" by simp
    moreover have "a \<le> b" using Suc.prems True by simp
    ultimately show ?thesis by (simp add: find_append)
  next
    case False
    with Suc.prems have ib: "i = b" by simp
    have "find P [a..<b] = None" using Suc.prems ib by (simp add: find_upt_None)
    then show ?thesis using Suc.prems ib by (simp add: find_append)
  qed
qed


subsection \<open>Lemmas about \<^verbatim>\<open>basicNode\<close>\<close>

lemma basicNode_cases:
  assumes "basicNode t Q T F = Inr (r, t')"
  obtains (found) i where
      "find (\<lambda>nid. nodeQ (N t nid) = Q \<and> nodeT (N t nid) = T \<and> nodeF (N t nid) = F)
            [TINYTREE_NSTART..<min (unat (count t)) TINYTREE_MAXNODES] = Some i"
      "r = of_nat i" "t' = t"
    | (fresh)
      "find (\<lambda>nid. nodeQ (N t nid) = Q \<and> nodeT (N t nid) = T \<and> nodeF (N t nid) = F)
            [TINYTREE_NSTART..<min (unat (count t)) TINYTREE_MAXNODES] = None"
      "unat (count t) < TINYTREE_NEND" "r = count t"
      "t' = t\<lparr>count := count t + 1,
               N := (N t)(unat (count t) := \<lparr>nodeQ = Q, nodeT = T, nodeF = F\<rparr>)\<rparr>"
      "unat (count t) < TINYTREE_MAXNODES"
  using assms by (auto simp: basicNode_def split: if_splits option.splits)

lemma basicNode_sane_cong:
  "qntf t' = qntf t \<Longrightarrow> basicNode_sane t' Q T F = basicNode_sane t Q T F"
  by (simp add: basicNode_sane_def)

lemma extends_refl: "extends t t"
  by (simp add: extends_def)

lemma extends_trans: "extends a b \<Longrightarrow> extends b c \<Longrightarrow> extends a c"
  by (auto simp: extends_def)

lemma basicNode_extends:
  assumes "basicNode t Q T F = Inr (r, t')"
  shows "extends t t'" and "unat (count t') = unat (count t) \<Longrightarrow> t' = t"
    and "unat (count t') \<le> Suc (unat (count t))"
    and "unat (count t) \<le> TINYTREE_NEND \<Longrightarrow> unat (count t') \<le> TINYTREE_NEND"
    and "unat (count t) \<le> TINYTREE_MAXNODES \<Longrightarrow> unat (count t') \<le> TINYTREE_MAXNODES"
  using assms
  by (cases rule: basicNode_cases; simp add: extends_def unat_count_Suc)+

lemma basicNode_found_stable:
  assumes "basicNode t Q T F = Inr (r, t)" and "extends t t2"
  shows "basicNode t2 Q T F = Inr (r, t2)"
  using assms(1)
proof (cases rule: basicNode_cases)
  case (found i)
  let ?P = "\<lambda>u nid. nodeQ (N u nid) = Q \<and> nodeT (N u nid) = T \<and> nodeF (N u nid) = F"
  from find_upt_Some [OF found(1)]
  have i: "TINYTREE_NSTART \<le> i" "i < unat (count t)" "i < TINYTREE_MAXNODES" "?P t i"
    "\<forall>j. TINYTREE_NSTART \<le> j \<and> j < i \<longrightarrow> \<not> ?P t j" by auto
  from assms(2) i
  have "find (?P t2) [TINYTREE_NSTART..<min (unat (count t2)) TINYTREE_MAXNODES] = Some i"
    by (intro find_upt_first) (auto simp: extends_def)
  moreover have "paranoid t \<longrightarrow> basicNode_sane t Q T F"
    using assms(1) by (auto simp: basicNode_def split: if_splits)
  ultimately show ?thesis
    using assms(2) found(2) by (simp add: basicNode_def extends_def basicNode_sane_def)
next
  case fresh
  from fresh(4) have "count t = count (t\<lparr>count := count t + 1,
      N := (N t)(unat (count t) := \<lparr>nodeQ = Q, nodeT = T, nodeF = F\<rparr>)\<rparr>)" by simp
  then have "unat (count t) = unat (count t + 1)" by simp
  moreover have "unat (count t + 1) = Suc (unat (count t))"
    using fresh(2) by (rule unat_count_Suc)
  ultimately show ?thesis by simp
qed

lemma basicNode_idem:
  assumes "basicNode t Q T F = Inr (r, t')" and "TINYTREE_NSTART \<le> unat (count t)"
  shows "basicNode t' Q T F = Inr (r, t')"
  using assms(1)
proof (cases rule: basicNode_cases)
  case (found i)
  with assms(1) show ?thesis by simp
next
  case fresh
  let ?P = "\<lambda>u nid. nodeQ (N u nid) = Q \<and> nodeT (N u nid) = T \<and> nodeF (N u nid) = F"
  let ?c = "unat (count t)"
  have cnt: "unat (count t') = Suc ?c" using fresh by (simp add: unat_count_Suc)
  have N': "N t' = (N t)(?c := \<lparr>nodeQ = Q, nodeT = T, nodeF = F\<rparr>)" using fresh by simp
  have "\<forall>j. TINYTREE_NSTART \<le> j \<and> j < ?c \<longrightarrow> \<not> ?P t' j"
    using fresh(1,5) by (auto simp: find_upt_None N')
  moreover have "?P t' ?c" by (simp add: N')
  ultimately
  have "find (?P t') [TINYTREE_NSTART..<min (unat (count t')) TINYTREE_MAXNODES] = Some ?c"
    using assms(2) cnt fresh(5) by (intro find_upt_first) auto
  moreover have "paranoid t \<longrightarrow> basicNode_sane t Q T F"
    using assms(1) by (auto simp: basicNode_def split: if_splits)
  moreover have "paranoid t' = paranoid t" "qntf t' = qntf t" using fresh by simp_all
  ultimately show ?thesis
    using fresh(3) by (simp add: basicNode_def basicNode_sane_def)
qed


subsection \<open>Lemmas about \<^verbatim>\<open>normaliseQTF\<close>\<close>

lemma normaliseQTF_induct' [case_names step]:
  fixes t :: tinyTree_t
  assumes "\<And>(t :: tinyTree_t) Q T F.
     (\<And>Q1 T1 F1 ibit Q2 T2 F2.
         paranoid t \<longrightarrow> normalise_sane t Q T F \<Longrightarrow>
         normalise_inverts Q T F = Inr (Q1, T1, F1, ibit) \<Longrightarrow>
         normalise_grouping Q1 T1 F1 ibit = Inr (Q2, T2, F2) \<Longrightarrow>
         qntf t \<Longrightarrow> NOT T2 AND IBIT \<noteq> 0 \<Longrightarrow> P t Q2 (T2 XOR IBIT) F2) \<Longrightarrow>
     P t Q T F"
  shows "P t Q T F"
proof (induction t Q T F rule: normaliseQTF.induct)
  case (1 t Q T F)
  show ?case
  proof (rule assms)
    fix Q1 T1 F1 ibit Q2 T2 F2
    assume "paranoid t \<longrightarrow> normalise_sane t Q T F"
      "normalise_inverts Q T F = Inr (Q1, T1, F1, ibit)"
      "normalise_grouping Q1 T1 F1 ibit = Inr (Q2, T2, F2)" "qntf t" "NOT T2 AND IBIT \<noteq> 0"
    then show "P t Q2 (T2 XOR IBIT) F2"
      by (intro "1.IH") auto
  qed
qed

lemma normaliseQTF_cases [consumes 1, case_names collapseF collapse store rewrite]:
  assumes "normaliseQTF t Q T F = Inr (r, t')"
  obtains
    (collapseF) "paranoid t \<longrightarrow> normalise_sane t Q T F"
      "normalise_inverts Q T F = Inl r" "t' = t"
  | (collapse) Q1 T1 F1 ibit where "paranoid t \<longrightarrow> normalise_sane t Q T F"
      "normalise_inverts Q T F = Inr (Q1, T1, F1, ibit)"
      "normalise_grouping Q1 T1 F1 ibit = Inl r" "t' = t"
  | (store) Q1 T1 F1 ibit Q2 T2 F2 nid where "paranoid t \<longrightarrow> normalise_sane t Q T F"
      "normalise_inverts Q T F = Inr (Q1, T1, F1, ibit)"
      "normalise_grouping Q1 T1 F1 ibit = Inr (Q2, T2, F2)"
      "\<not> (qntf t \<and> NOT T2 AND IBIT \<noteq> 0)"
      "basicNode t Q2 T2 F2 = Inr (nid, t')" "r = nid XOR ibit"
  | (rewrite) Q1 T1 F1 ibit Q2 T2 F2 r1 t1 nid where "paranoid t \<longrightarrow> normalise_sane t Q T F"
      "normalise_inverts Q T F = Inr (Q1, T1, F1, ibit)"
      "normalise_grouping Q1 T1 F1 ibit = Inr (Q2, T2, F2)"
      "qntf t" "NOT T2 AND IBIT \<noteq> 0"
      "normaliseQTF t Q2 (T2 XOR IBIT) F2 = Inr (r1, t1)"
      "basicNode t1 Q2 (r1 XOR IBIT) F2 = Inr (nid, t')" "r = nid XOR ibit"
  using assms
  by (subst (asm) normaliseQTF.simps) (auto split: if_splits sum.splits prod.splits)

lemma normaliseQTF_collapseFI:
  "paranoid t \<longrightarrow> normalise_sane t Q T F \<Longrightarrow> normalise_inverts Q T F = Inl r \<Longrightarrow>
   normaliseQTF t Q T F = Inr (r, t)"
  by (subst normaliseQTF.simps) auto

lemma normaliseQTF_collapseI:
  "paranoid t \<longrightarrow> normalise_sane t Q T F \<Longrightarrow>
   normalise_inverts Q T F = Inr (Q1, T1, F1, ibit) \<Longrightarrow>
   normalise_grouping Q1 T1 F1 ibit = Inl r \<Longrightarrow>
   normaliseQTF t Q T F = Inr (r, t)"
  by (subst normaliseQTF.simps) auto

lemma normaliseQTF_storeI:
  "paranoid t \<longrightarrow> normalise_sane t Q T F \<Longrightarrow>
   normalise_inverts Q T F = Inr (Q1, T1, F1, ibit) \<Longrightarrow>
   normalise_grouping Q1 T1 F1 ibit = Inr (Q2, T2, F2) \<Longrightarrow>
   \<not> (qntf t \<and> NOT T2 AND IBIT \<noteq> 0) \<Longrightarrow>
   basicNode t Q2 T2 F2 = Inr (nid, t') \<Longrightarrow>
   normaliseQTF t Q T F = Inr (nid XOR ibit, t')"
  by (subst normaliseQTF.simps) auto

lemma normaliseQTF_rewriteI:
  "paranoid t \<longrightarrow> normalise_sane t Q T F \<Longrightarrow>
   normalise_inverts Q T F = Inr (Q1, T1, F1, ibit) \<Longrightarrow>
   normalise_grouping Q1 T1 F1 ibit = Inr (Q2, T2, F2) \<Longrightarrow>
   qntf t \<Longrightarrow> NOT T2 AND IBIT \<noteq> 0 \<Longrightarrow>
   normaliseQTF t Q2 (T2 XOR IBIT) F2 = Inr (r1, t1) \<Longrightarrow>
   basicNode t1 Q2 (r1 XOR IBIT) F2 = Inr (nid, t') \<Longrightarrow>
   normaliseQTF t Q T F = Inr (nid XOR ibit, t')"
  by (subst normaliseQTF.simps) auto

lemma normalise_sane_extends:
  "extends t t2 \<Longrightarrow> normalise_sane t Q T F \<Longrightarrow> normalise_sane t2 Q T F"
  by (auto simp: extends_def normalise_sane_def word_less_nat_alt)

lemma normaliseQTF_extends:
  fixes t :: tinyTree_t
  shows "normaliseQTF t Q T F = Inr (r, t') \<Longrightarrow>
     extends t t' \<and> (unat (count t') = unat (count t) \<longrightarrow> t' = t) \<and>
     (unat (count t) \<le> TINYTREE_NEND \<longrightarrow> unat (count t') \<le> TINYTREE_NEND)"
proof (induction t Q T F arbitrary: r t' rule: normaliseQTF_induct')
  case (step t Q T F)
  from step.prems show ?case
  proof (cases rule: normaliseQTF_cases)
    case collapseF
    then show ?thesis by (simp add: extends_refl)
  next
    case (collapse Q1 T1 F1 ibit)
    then show ?thesis by (simp add: extends_refl)
  next
    case (store Q1 T1 F1 ibit Q2 T2 F2 nid)
    from basicNode_extends [OF store(5)] show ?thesis by simp
  next
    case (rewrite Q1 T1 F1 ibit Q2 T2 F2 r1 t1 nid)
    from step.IH [OF rewrite(1-6)]
    have a: "extends t t1" "unat (count t1) = unat (count t) \<longrightarrow> t1 = t"
      "unat (count t) \<le> TINYTREE_NEND \<longrightarrow> unat (count t1) \<le> TINYTREE_NEND" by auto
    note b = basicNode_extends [OF rewrite(7)]
    have "extends t t'" using a(1) b(1) by (rule extends_trans)
    moreover have "t' = t" if "unat (count t') = unat (count t)"
    proof -
      from a(1) b(1) that have "unat (count t1) = unat (count t)" "unat (count t') = unat (count t1)"
        by (auto simp: extends_def)
      with a(2) b(2) show ?thesis by simp
    qed
    ultimately show ?thesis using a(3) b(4) by auto
  qed
qed


lemma normaliseQTF_found_stable:
  fixes t :: tinyTree_t
  shows "normaliseQTF t Q T F = Inr (r, t) \<Longrightarrow> extends t t2 \<Longrightarrow>
         normaliseQTF t2 Q T F = Inr (r, t2)"
proof (induction t Q T F arbitrary: r rule: normaliseQTF_induct')
  case (step t Q T F)
  have fl: "paranoid t2 = paranoid t" "qntf t2 = qntf t"
    using step.prems(2) by (simp_all add: extends_def)
  from step.prems(1) show ?case
  proof (cases rule: normaliseQTF_cases)
    case collapseF
    then show ?thesis
      using fl normalise_sane_extends [OF step.prems(2)] by (intro normaliseQTF_collapseFI) auto
  next
    case (collapse Q1 T1 F1 ibit)
    then show ?thesis
      using fl normalise_sane_extends [OF step.prems(2)] by (intro normaliseQTF_collapseI) auto
  next
    case (store Q1 T1 F1 ibit Q2 T2 F2 nid)
    from basicNode_found_stable [OF store(5) step.prems(2)] store
    show ?thesis
      using fl normalise_sane_extends [OF step.prems(2)]
      by (simp only:) (rule normaliseQTF_storeI; auto)
  next
    case (rewrite Q1 T1 F1 ibit Q2 T2 F2 r1 t1 nid)
    note a = normaliseQTF_extends [OF rewrite(6)]
    note b = basicNode_extends [OF rewrite(7)]
    from a b have "unat (count t1) = unat (count t)" by (auto simp: extends_def)
    with a have t1: "t1 = t" by simp
    from step.IH [OF rewrite(1-5) rewrite(6) [unfolded t1] step.prems(2)]
    have inner: "normaliseQTF t2 Q2 (T2 XOR IBIT) F2 = Inr (r1, t2)" .
    from basicNode_found_stable [OF rewrite(7) [unfolded t1] step.prems(2)]
    have outer: "basicNode t2 Q2 (r1 XOR IBIT) F2 = Inr (nid, t2)" .
    show ?thesis
      unfolding rewrite(8)
      using rewrite(1-5) fl normalise_sane_extends [OF step.prems(2)] inner outer
      by (intro normaliseQTF_rewriteI [where ?t1.0 = t2 and ?r1.0 = r1]) auto
  qed
qed

lemma normaliseQTF_idem:
  fixes t :: tinyTree_t
  shows "normaliseQTF t Q T F = Inr (r, t') \<Longrightarrow> TINYTREE_NSTART \<le> unat (count t) \<Longrightarrow>
         normaliseQTF t' Q T F = Inr (r, t')"
proof (induction t Q T F arbitrary: r t' rule: normaliseQTF_induct')
  case (step t Q T F)
  note ext = normaliseQTF_extends [OF step.prems(1), THEN conjunct1]
  have fl: "paranoid t' = paranoid t" "qntf t' = qntf t"
    using ext by (simp_all add: extends_def)
  note sane = normalise_sane_extends [OF ext]
  from step.prems(1) show ?case
  proof (cases rule: normaliseQTF_cases)
    case collapseF
    then show ?thesis using step.prems(1) by simp
  next
    case (collapse Q1 T1 F1 ibit)
    then show ?thesis using step.prems(1) by simp
  next
    case (store Q1 T1 F1 ibit Q2 T2 F2 nid)
    from basicNode_idem [OF store(5) step.prems(2)] store
    show ?thesis
      using fl sane by (simp only:) (rule normaliseQTF_storeI; auto)
  next
    case (rewrite Q1 T1 F1 ibit Q2 T2 F2 r1 t1 nid)
    note a = normaliseQTF_extends [OF rewrite(6)]
    note b = basicNode_extends [OF rewrite(7)]
    have n1: "TINYTREE_NSTART \<le> unat (count t1)"
      using a step.prems(2) by (auto simp: extends_def)
    from step.IH [OF rewrite(1-5) rewrite(6) step.prems(2)]
    have "normaliseQTF t1 Q2 (T2 XOR IBIT) F2 = Inr (r1, t1)" .
    from normaliseQTF_found_stable [OF this b(1)]
    have inner: "normaliseQTF t' Q2 (T2 XOR IBIT) F2 = Inr (r1, t')" .
    from basicNode_idem [OF rewrite(7) n1]
    have outer: "basicNode t' Q2 (r1 XOR IBIT) F2 = Inr (nid, t')" .
    show ?thesis
      unfolding rewrite(8)
      using rewrite(1-5) fl sane inner outer
      by (intro normaliseQTF_rewriteI [where ?t1.0 = t' and ?r1.0 = r1]) auto
  qed
qed


subsection \<open>The ordering invariant\<close>



lemma and_not_IBIT_zero: "(0::u32) AND NOT IBIT = 0" by simp

lemma IBIT_and_not_IBIT: "IBIT AND NOT IBIT = (0::u32)" by simp









subsection \<open>Normalisation is idempotent\<close>

lemma normaliseQTF_tree_empty:
  "normaliseQTF tree_empty 1 (2 XOR IBIT) 3 = Inr (10, tree_one)"
  by (simp add: normaliseQTF.simps normalise_inverts_def normalise_grouping_def basicNode_def
      tree_empty_def tree_one_def clear_def NSTART_val NEND_val MAXNODES_val IBIT_def)

text \<open>
  Claim C6. On a tree whose \<open>count\<close> is at least \<open>TINYTREE_NSTART\<close> (every tree after
  \<^verbatim>\<open>clear()\<close> or a parse), a call \<^verbatim>\<open>normaliseQTF(Q, T, F)\<close> that returns reference \<open>r\<close> and
  leaves the tree \<open>t'\<close> is followed by a second call with the same arguments that returns
  the same \<open>r\<close> and leaves \<open>t'\<close> as it is: no node is added and \<open>count\<close> does not grow. A
  first call that does not return (a failed check in paranoid mode, a node that would be
  stored outside the array) has no second call.
\<close>

theorem addNode_idempotent:
  assumes "TINYTREE_NSTART \<le> unat (count t)"
    and "normaliseQTF t Q T F = Inr (r, t')"
  shows "normaliseQTF t' Q T F = Inr (r, t')"
  using normaliseQTF_idem [OF assms(2) assms(1)] .

theorem addNode_idempotent_witness:
  "TINYTREE_NSTART \<le> unat (count tree_empty) \<and>
   normaliseQTF tree_empty 1 (2 XOR IBIT) 3 = Inr (10, tree_one) \<and>
   normaliseQTF tree_one 1 (2 XOR IBIT) 3 = Inr (10, tree_one) \<and>
   count tree_one = 11"
proof -
  have c: "TINYTREE_NSTART \<le> unat (count tree_empty)"
    by (simp add: tree_empty_def clear_def NSTART_val)
  from addNode_idempotent [OF c normaliseQTF_tree_empty] c normaliseQTF_tree_empty
  show ?thesis by (simp add: tree_one_def)
qed

text \<open>
  On a tree that was never cleared the scan of \<^verbatim>\<open>basicNode\<close>, which starts at
  \<^verbatim>\<open>TINYTREE_NSTART\<close>, does not reach the node the first call stored: the second call
  stores it again, returns another reference, and \<open>count\<close> grows from 1 to 2.
\<close>

theorem addNode_twice_before_clear:
  "normaliseQTF tree_raw 1 (2 XOR IBIT) 3 = Inr (0, tree_raw_one) \<and>
   normaliseQTF tree_raw_one 1 (2 XOR IBIT) 3 = Inr (1, tree_raw_two) \<and>
   count tree_raw_one = 1 \<and> count tree_raw_two = 2"
  by (simp add: normaliseQTF.simps normalise_inverts_def normalise_grouping_def basicNode_def
      tree_raw_def tree_raw_one_def tree_raw_two_def NSTART_val NEND_val MAXNODES_val IBIT_def)

subsection \<open>The safe parser leaves the root alone until it succeeds\<close>

lemma basicNode_root: "basicNode t Q T F = Inr (r, t') \<Longrightarrow> root t' = root t"
  by (cases rule: basicNode_cases) auto

lemma normaliseQTF_root:
  fixes t :: tinyTree_t
  shows "normaliseQTF t Q T F = Inr (r, t') \<Longrightarrow> root t' = root t"
proof (induction t Q T F arbitrary: r t' rule: normaliseQTF_induct')
  case (step t Q T F)
  from step.prems show ?case
  proof (cases rule: normaliseQTF_cases)
    case (store Q1 T1 F1 ibit Q2 T2 F2 nid)
    then show ?thesis by (simp add: basicNode_root)
  next
    case (rewrite Q1 T1 F1 ibit Q2 T2 F2 r1 t1 nid)
    from step.IH [OF rewrite(1-6)] basicNode_root [OF rewrite(7)] show ?thesis by simp
  qed simp_all
qed

lemma push_root: "push v s = Continue s' \<Longrightarrow> root (tree s') = root (tree s)"
  by (auto simp: push_def split: if_splits)

lemma push_node_root: "push_node v s = Continue s' \<Longrightarrow> root (tree s') = root (tree s)"
  by (auto simp: push_node_def split: if_splits)

lemma push_node_LT_root: "push_node_LT v s = Continue s' \<Longrightarrow> root (tree s') = root (tree s)"
  by (auto simp: push_node_LT_def split: if_splits)

lemma dyadic_root:
  assumes "dyadic mk fin s = Continue s'"
    and "\<And>v u u'. fin v u = Continue u' \<Longrightarrow> root (tree u') = root (tree u)"
  shows "root (tree s') = root (tree s)"
  using assms(1)
  by (auto simp: dyadic_def split: if_splits option.splits prod.splits sum.splits
      dest!: assms(2) normaliseQTF_root)

lemma ternary_root:
  assumes "ternary mk s = Continue s'"
  shows "root (tree s') = root (tree s)"
  using assms
  by (auto simp: ternary_def split: if_splits option.splits prod.splits sum.splits
      dest!: push_node_root normaliseQTF_root)

lemma dyadic_not_SkipRest:
  assumes "\<And>v u u'. fin v u \<noteq> SkipRest u'"
  shows "dyadic mk fin s \<noteq> SkipRest s'"
  using assms
  by (auto simp: dyadic_def split: if_splits option.splits prod.splits sum.splits)

lemma decodeSafe_char_root:
  assumes "decodeSafe_char pSkin c s = Continue s' \<or> decodeSafe_char pSkin c s = SkipRest s'"
  shows "root (tree s') = root (tree s)"
proof -
  note r = push_root push_node_root push_node_LT_root ternary_root
    dyadic_root [where fin = push_node, OF _ push_node_root]
    dyadic_root [where fin = push_node_LT, OF _ push_node_LT_root]
  have nsr: "push v u \<noteq> SkipRest u'" "push_node v u \<noteq> SkipRest u'" "push_node_LT v u \<noteq> SkipRest u'"
    "ternary mk3 u \<noteq> SkipRest u'" for v u u' mk3
    by (auto simp: push_def push_node_def push_node_LT_def ternary_def
        split: if_splits option.splits prod.splits sum.splits)
  note nsr2 = dyadic_not_SkipRest [where fin = push_node, OF nsr(2)]
    dyadic_not_SkipRest [where fin = push_node_LT, OF nsr(3)]
  from assms show ?thesis
    unfolding decodeSafe_char_def Let_def
    by (auto split: if_splits sum.splits option.splits dest: r simp: nsr nsr2)
qed

lemma decodeSafe_walk_root:
  "decodeSafe_walk pSkin cs s = Continue s' \<Longrightarrow> root (tree s') = root (tree s)"
proof (induction cs arbitrary: s)
  case Nil
  then show ?case by simp
next
  case (Cons c cs)
  show ?case
  proof (cases "decodeSafe_char pSkin c s")
    case (Continue u)
    with Cons.prems have "decodeSafe_walk pSkin cs u = Continue s'" by simp
    from Cons.IH [OF this] decodeSafe_char_root [of pSkin c s u] Continue
    show ?thesis by simp
  next
    case (SkipRest u)
    with Cons.prems have "u = s'" by simp
    with decodeSafe_char_root [of pSkin c s u] SkipRest show ?thesis by simp
  qed (use Cons.prems in simp_all)
qed

text \<open>
  When the walk over the notation ends without an early return and without a fault (every
  character was accepted, every node was stored in the array) and the stack position is
  not 1, \<^verbatim>\<open>decodeSafe\<close> returns \<open>DERR_INCOMPLETE\<close>, whose code is 5: not zero, and none of the
  syntax, placeholder, overflow, underflow and size codes. The root of the tree is the
  zero reference.
\<close>

lemma decodeSafe_incomplete_in_array:
  assumes "decodeSafe_scan t pName pSkin = Continue s" and "stackPos s \<noteq> 1"
  shows "(\<exists>t'. decodeSafe t pName pSkin = Inr (DERR_INCOMPLETE, t') \<and> root t' = 0) \<and>
         derr_code DERR_INCOMPLETE \<noteq> 0 \<and>
         DERR_INCOMPLETE \<notin> {DERR_OK, DERR_SYNTAX, DERR_PLACEHOLDER, DERR_OVERFLOW,
                             DERR_UNDERFLOW, DERR_SIZE}"
proof -
  from assms(1) have "root (tree s) = root (tree (decodeSafe_init t))"
    unfolding decodeSafe_scan_def by (rule decodeSafe_walk_root)
  then have "root (tree s) = 0" by (simp add: decodeSafe_init_def)
  moreover have "decodeSafe t pName pSkin = Inr (DERR_INCOMPLETE, tree s)"
    using assms by (simp add: decodeSafe_def)
  ultimately show ?thesis by simp
qed

lemma decodeSafe_incomplete_examples:
  "(\<exists>t'. decodeSafe tree_empty [] ''abcdefghi'' = Inr (DERR_INCOMPLETE, t') \<and> root t' = 0) \<and>
   (\<exists>t'. decodeSafe tree_empty ''ab'' ''abcdefghi'' = Inr (DERR_INCOMPLETE, t') \<and> root t' = 0)"
proof -
  have e: "decodeSafe_scan tree_empty [] ''abcdefghi'' = Continue (decodeSafe_init tree_empty)"
    by (simp add: decodeSafe_scan_def cstring_def)
  have e0: "stackPos (decodeSafe_init tree_empty) = 0"
    by (simp add: decodeSafe_init_def)
  obtain s where ab: "decodeSafe_scan tree_empty ''ab'' ''abcdefghi'' = Continue s"
    and ab2: "stackPos s = 2"
    by (simp add: decodeSafe_scan_def cstring_def decodeSafe_char_def decodeSafe_init_def
        cstring_at_def isalnum_def islower_def isdigit_def isupper_def push_def
        TINYTREE_MAXSTACK_def TINYTREE_MAXNODES_def MAXSLOTS_def NEND_val NSTART_val
        TINYTREE_KSTART_def)
  from decodeSafe_incomplete_in_array [OF e] e0
  have one: "\<exists>t'. decodeSafe tree_empty [] ''abcdefghi'' = Inr (DERR_INCOMPLETE, t') \<and> root t' = 0"
    by simp
  from decodeSafe_incomplete_in_array [OF ab] ab2
  have two: "\<exists>t'. decodeSafe tree_empty ''ab'' ''abcdefghi'' = Inr (DERR_INCOMPLETE, t') \<and> root t' = 0"
    by simp
  from one two show ?thesis by blast
qed

text \<open>
  Claim C10 at a failing input. Every character of \<^verbatim>\<open>ab+c+d+e+f+g+h+i+a^b\<close> is one the
  parser accepts, and the notation leaves two operands. After \<^verbatim>\<open>ab+c+d+e+f+g+h+i+a\<close> the
  tree holds the eight nodes 10 to 17, \<open>count\<close> is 18 and the size guard, which refuses
  an operator from \<open>count\<close> 27 on, lets \<^verbatim>\<open>^\<close> pass: \<^verbatim>\<open>basicNode\<close> stores the ninth node at
  \<open>N[18]\<close>, outside the array of 18 entries. The call has no defined result: neither
  \<open>DERR_INCOMPLETE\<close> nor a root that is kept.
\<close>

theorem decodeSafe_incomplete_overruns_array:
  "(case decodeSafe_scan tree_empty ''ab+c+d+e+f+g+h+i+a'' ''abcdefghi'' of
      Continue s \<Rightarrow>
        unat (count (tree s)) = 18 \<and> stackPos s = 2 \<and> root (tree s) = 0 \<and>
        \<not> unat (count (tree s)) \<ge> TINYTREE_NEND - 1 \<and>
        (case decodeSafe_char ''abcdefghi'' (CHR ''^'') s of
           Abort e \<Rightarrow> e = Undefined
         | _ \<Rightarrow> False)
    | _ \<Rightarrow> False) \<and>
   (case decodeSafe tree_empty ''ab+c+d+e+f+g+h+i+a^b'' ''abcdefghi'' of
      Inl e \<Rightarrow> e = Undefined
    | Inr r \<Rightarrow> False)"
  by code_simp

subsection \<open>Parse, encode, parse again\<close>

text \<open>
  Claim C4 at a failing input. The notation \<^verbatim>\<open>ab+cd+^ef+^gh+^i^a+\<close> has nine operators,
  each character is one the parser accepts and the operand stack never runs empty or
  over. The first eight operators fill the nodes 10 to 17 (the parser accepts
  \<^verbatim>\<open>ab+cd+^ef+^gh+^i^\<close> with root 17); at the ninth \<open>count\<close> is 18, far below the 27 at which
  the size guard returns \<open>DERR_SIZE\<close>, and \<^verbatim>\<open>basicNode\<close> stores the node at \<open>N[18]\<close>,
  outside the array of 18 entries. The parser neither refuses the notation nor builds
  its tree in \<open>N\<close>: there is no tree for the encoder and the fast parser to reproduce.
\<close>

theorem decodeSafe_overruns_array_on_nine_nodes:
  "(case decodeSafe tree_empty ''ab+cd+^ef+^gh+^i^'' ''abcdefghi'' of
      Inl e \<Rightarrow> False
    | Inr r \<Rightarrow> fst r = DERR_OK \<and> unat (count (snd r)) = 18 \<and> root (snd r) = 17) \<and>
   (case decodeSafe_scan tree_empty ''ab+cd+^ef+^gh+^i^a'' ''abcdefghi'' of
      Continue s \<Rightarrow>
        unat (count (tree s)) = 18 \<and> stackPos s = 2 \<and>
        \<not> unat (count (tree s)) \<ge> TINYTREE_NEND - 1 \<and>
        (case decodeSafe_char ''abcdefghi'' (CHR ''+'') s of
           Abort e \<Rightarrow> e = Undefined
         | _ \<Rightarrow> False)
    | _ \<Rightarrow> False) \<and>
   (case decodeSafe tree_empty ''ab+cd+^ef+^gh+^i^a+'' ''abcdefghi'' of
      Inl e \<Rightarrow> e = Undefined
    | Inr r \<Rightarrow> False)"
  by code_simp

subsection \<open>The safe parser keeps the tree ordered\<close>




























section \<open>Properties of the member engine\<close>

subsection \<open>The comparator\<close>

text \<open>
  Claim C2 at its failing inputs. For two different, non-empty members that agree on
  \<open>SAFE\<close> and on \<open>DEPR\<close>, of which only the right one is a \<open>COMPONENT\<close>, \<^verbatim>\<open>comparMember\<close> returns
  \<open>-1\<close>, "left before right", whatever the scores and the trees; and it returns \<open>-1\<close> with
  the two swapped as well. The order of the claim puts the component first: the result
  for (non-component, component) would have to be positive.
\<close>

theorem comparMember_component_slip:
  assumes "lhs \<noteq> rhs"
    and "m_sid (ms lhs) \<noteq> 0" and "m_sid (ms rhs) \<noteq> 0"
    and "MEMMASK_SAFE \<in> m_flags (ms lhs) \<longleftrightarrow> MEMMASK_SAFE \<in> m_flags (ms rhs)"
    and "MEMMASK_DEPR \<in> m_flags (ms lhs) \<longleftrightarrow> MEMMASK_DEPR \<in> m_flags (ms rhs)"
    and "MEMMASK_COMP \<notin> m_flags (ms lhs)" and "MEMMASK_COMP \<in> m_flags (ms rhs)"
  shows "comparMember calcScoreName compareNames ms lhs rhs = -1 \<and>
         comparMember calcScoreName compareNames ms rhs lhs = -1"
  using assms by (auto simp: comparMember_def Let_def)

theorem comparMember_component_slip_witness:
  "comparMember score_by_length compare_by_length members_two 1 2 = -1 \<and>
   comparMember score_by_length compare_by_length members_two 2 1 = -1 \<and>
   MEMMASK_COMP \<notin> m_flags (members_two 1) \<and> MEMMASK_COMP \<in> m_flags (members_two 2)"
proof -
  have "comparMember score_by_length compare_by_length members_two 1 2 = -1 \<and>
        comparMember score_by_length compare_by_length members_two 2 1 = -1"
    by (rule comparMember_component_slip) (simp_all add: members_two_def member_zero_def)
  then show ?thesis by (simp add: members_two_def member_zero_def)
qed

section \<open>The member engine: the paths of \<^verbatim>\<open>foundTreeMember\<close>\<close>

lemma foundTreeMember_truncated:
  "truncated app \<noteq> 0 \<Longrightarrow>
   foundTreeMember ops tmpMid ctx app treeR pNameR np ne nb = Some (Inr (False, ctx, app))"
  by (simp add: foundTreeMember_def)

lemma foundTreeMember_duplicate:
  "truncated app = 0 \<Longrightarrow> memberIndex (pStore app) (lookupMember ops (pStore app) pNameR) \<noteq> 0 \<Longrightarrow>
   foundTreeMember ops tmpMid ctx app treeR pNameR np ne nb =
     Some (Inr (True, tickReport ops ctx, app\<lparr>skipDuplicate := skipDuplicate app + 1\<rparr>))"
  by (simp add: foundTreeMember_def Let_def)

lemma foundTreeMember_overflow:
  "truncated app = 0 \<Longrightarrow> memberIndex (pStore app) (lookupMember ops (pStore app) pNameR) = 0 \<Longrightarrow>
   overflowing app \<Longrightarrow>
   foundTreeMember ops tmpMid ctx app treeR pNameR np ne nb =
     Some (Inr (False, tickReport ops ctx,
                app\<lparr>truncated := progress (tickReport ops ctx), truncatedName := pNameR\<rparr>))"
  by (simp add: foundTreeMember_def Let_def)
















subsection \<open>Runs on the demo database\<close>

lemma tickReport_demo: "tickReport ops_demo ctx_demo = ctx_demo"
  by (simp add: tickReport_def ctx_demo_def)

lemma lookup_a_demo: "memberIndex store_demo (lookupMember ops_demo store_demo ''a'') = 2"
  by code_simp


























lemma overflowing_full: "overflowing app_full"
  by code_simp








lemma lookup_a_full: "memberIndex (pStore app_full) (lookupMember ops_demo (pStore app_full) ''a'') = 2"
  by code_simp

lemma lookup_a_truncated:
  "memberIndex (pStore app_truncated) (lookupMember ops_demo (pStore app_truncated) ''a'') = 2"
  by code_simp

lemma lookup_a_app: "memberIndex (pStore app_demo) (lookupMember ops_demo (pStore app_demo) ''a'') = 2"
  by code_simp

lemma lookup_cand_full:
  "memberIndex (pStore app_full) (lookupMember ops_demo (pStore app_full) ''cab+&'') = 0"
  by code_simp

lemma truncated_full: "truncated app_full = 0"
  by (simp add: app_full_def app_demo_def)

lemma truncated_truncated: "truncated app_truncated = 42"
  by (simp add: app_truncated_def)

section \<open>The claims on the member engine\<close>











text \<open>
  C5. The overflow guard is reached only by a call that finds \<open>truncated\<close> zero and whose
  candidate name is not in the member index. Such a call, with truncation enabled and the
  free imprint capacity at most the interleave or the free signature capacity at most 1,
  records the progress in \<open>truncated\<close>, keeps the name in \<open>truncatedName\<close>, returns false
  and changes nothing else of the engine, so no database section; the context is changed
  by the progress report only. A call that finds \<open>truncated\<close> non-zero returns false and
  changes nothing.
\<close>

theorem overflow_guard:
  "(truncated app = 0 \<and> memberIndex (pStore app) (lookupMember ops (pStore app) pNameR) = 0 \<and>
    opt_truncate app \<and>
    (maxImprint (pStore app) - numImprint (pStore app) \<le> interleave (pStore app) \<or>
     maxSignature (pStore app) - numSignature (pStore app) \<le> 1) \<longrightarrow>
    foundTreeMember ops tmpMid ctx app treeR pNameR numPlaceholder numEndpoint numBackRef =
      Some (Inr (False, tickReport ops ctx,
                 app\<lparr>truncated := progress (tickReport ops ctx), truncatedName := pNameR\<rparr>))) \<and>
   (truncated app \<noteq> 0 \<longrightarrow>
    foundTreeMember ops tmpMid ctx app treeR pNameR numPlaceholder numEndpoint numBackRef =
      Some (Inr (False, ctx, app)))"
  using foundTreeMember_overflow [of app ops pNameR tmpMid ctx treeR numPlaceholder numEndpoint numBackRef]
        foundTreeMember_truncated [of app ops tmpMid ctx treeR pNameR numPlaceholder numEndpoint numBackRef]
  by (simp add: overflowing_def)

theorem overflow_guard_witness:
  "truncated app_full = 0 \<and>
   memberIndex (pStore app_full) (lookupMember ops_demo (pStore app_full) ''cab+&'') = 0 \<and>
   opt_truncate app_full \<and>
   maxImprint (pStore app_full) - numImprint (pStore app_full) \<le> interleave (pStore app_full) \<and>
   foundTreeMember ops_demo 0 ctx_demo app_full tree_cand ''cab+&'' 3 3 0 =
     Some (Inr (False, ctx_demo, app_truncated)) \<and>
   truncated app_truncated = 42 \<and>
   foundTreeMember ops_demo 0 ctx_demo app_truncated tree_cand ''cab+&'' 3 3 0 =
     Some (Inr (False, ctx_demo, app_truncated))"
proof -
  have o: "opt_truncate app_full"
    "maxImprint (pStore app_full) - numImprint (pStore app_full) \<le> interleave (pStore app_full)"
    by (simp_all add: app_full_def app_demo_def store_demo_def)
  have p: "progress ctx_demo = 42"
    by (simp add: ctx_demo_def)
  show ?thesis
    using overflow_guard [of app_full ops_demo "''cab+&''" 0 ctx_demo tree_cand 3 3 0]
          overflow_guard [of app_truncated ops_demo "''cab+&''" 0 ctx_demo tree_cand 3 3 0]
          truncated_full lookup_cand_full o
    by (simp add: tickReport_demo p truncated_truncated app_truncated_def)
qed

theorem overflow_guard_after_duplicate:
  "opt_truncate app_full \<and>
   maxImprint (pStore app_full) - numImprint (pStore app_full) \<le> interleave (pStore app_full) \<and>
   truncated app_full = 0 \<and>
   foundTreeMember ops_demo 0 ctx_demo app_full tree_a ''a'' 1 1 0 =
     Some (Inr (True, ctx_demo, app_full\<lparr>skipDuplicate := 1\<rparr>)) \<and>
   truncated (app_full\<lparr>skipDuplicate := 1\<rparr>) = 0 \<and>
   truncatedName (app_full\<lparr>skipDuplicate := 1\<rparr>) = []"
  using foundTreeMember_duplicate [of app_full ops_demo "''a''" 0 ctx_demo tree_a 1 1 0]
        truncated_full lookup_a_full
  by (simp add: tickReport_demo) (simp add: app_full_def app_demo_def store_demo_def)

text \<open>
  C9. A call that finds \<open>truncated\<close> zero, with a candidate whose name is already in the
  member index, returns true with \<open>skipDuplicate\<close> one higher (modulo \<open>2^32\<close>) and nothing
  else of the engine changed: no section, no index, no other counter, no signature flag. The
  context is changed by the progress report only.
\<close>

theorem duplicate_counted:
  assumes "truncated app = 0"
    and "memberIndex (pStore app) (lookupMember ops (pStore app) pNameR) \<noteq> 0"
  shows "foundTreeMember ops tmpMid ctx app treeR pNameR numPlaceholder numEndpoint numBackRef =
           Some (Inr (True, tickReport ops ctx, app\<lparr>skipDuplicate := skipDuplicate app + 1\<rparr>))"
  using assms by (rule foundTreeMember_duplicate)

theorem duplicate_counted_witness:
  "truncated app_demo = 0 \<and>
   memberIndex (pStore app_demo) (lookupMember ops_demo (pStore app_demo) ''a'') = 2 \<and>
   foundTreeMember ops_demo 0 ctx_demo app_demo tree_a ''a'' 1 1 0 =
     Some (Inr (True, ctx_demo, app_demo\<lparr>skipDuplicate := 1\<rparr>))"
proof -
  have t: "truncated app_demo = 0" and k: "skipDuplicate app_demo = 0"
    by (simp_all add: app_demo_def)
  show ?thesis
    using duplicate_counted [of app_demo ops_demo "''a''" 0 ctx_demo tree_a 1 1 0] t lookup_a_app
    by (simp add: tickReport_demo k)
qed

theorem duplicate_ignored_when_truncated:
  "memberIndex (pStore app_truncated) (lookupMember ops_demo (pStore app_truncated) ''a'') = 2 \<and>
   truncated app_truncated = 42 \<and>
   foundTreeMember ops_demo 0 ctx_demo app_truncated tree_a ''a'' 1 1 0 =
     Some (Inr (False, ctx_demo, app_truncated)) \<and>
   skipDuplicate app_truncated = 0"
  using foundTreeMember_truncated [of app_truncated ops_demo 0 ctx_demo tree_a "''a''" 1 1 0]
        lookup_a_truncated truncated_truncated
  by (simp add: app_truncated_def app_full_def app_demo_def)

end
